theory Spec2Isabelle
  imports Complex_Main "HOL-Library.Sublist" "HOL-Library.Multiset" "HOL-Library.Log_Nat"
begin

section \<open>Viral content analyzer: strings and the platform classifier\<close>

text \<open>
  The development embeds \<^verbatim>\<open>src/services/viral_content_analyzer.py\<close> (class
  \<^verbatim>\<open>ViralContentAnalyzer\<close>). A Python \<^verbatim>\<open>str\<close> is a \<^typ>\<open>string\<close>: a list of
  characters with code points below 256 (Latin-1, which covers every literal of the
  source, whose Portuguese keywords use the code points 225, 227, 231 and 245).
  Python's \<^verbatim>\<open>needle in text\<close> on strings is \<^const>\<open>sublist\<close> (a contiguous
  segment). Code points from 256 on, and the case mappings Unicode defines for them, are
  not represented.
\<close>

subsection \<open>str.lower\<close>

text \<open>
  \<^verbatim>\<open>str.lower()\<close> on code points below 256: the letters A to Z and the Latin-1 capitals
  192 to 222 (the multiplication sign 215 apart) move up by 32, everything else stays.
\<close>

definition lower_char :: "char \<Rightarrow> char" where
  "lower_char c =
     (let n = (of_char c :: nat)
      in if (65 \<le> n \<and> n \<le> 90) \<or> (192 \<le> n \<and> n \<le> 222 \<and> n \<noteq> 215)
         then char_of (n + 32) else c)"

definition py_lower :: "string \<Rightarrow> string" where
  "py_lower s = map lower_char s"

subsection \<open>\_identify\_platform\<close>

text \<open>
  \<^verbatim>\<open>
  def _identify_platform(self, url: str) -> Optional[str]:
      url_lower = url.lower()
      if 'instagram.com' in url_lower:
          return 'instagram'
      elif 'youtube.com' in url_lower or 'youtu.be' in url_lower:
          return 'youtube'
      elif 'facebook.com' in url_lower or 'fb.com' in url_lower:
          return 'facebook'
      elif 'twitter.com' in url_lower or 'x.com' in url_lower:
          return 'twitter'
      elif 'tiktok.com' in url_lower:
          return 'tiktok'
      elif 'linkedin.com' in url_lower:
          return 'linkedin'
      return None
  \<close>
\<close>

definition identify_platform :: "string \<Rightarrow> string option" where
  "identify_platform url =
     (let url_lower = py_lower url
      in if sublist ''instagram.com'' url_lower then Some ''instagram''
         else if sublist ''youtube.com'' url_lower \<or> sublist ''youtu.be'' url_lower
           then Some ''youtube''
         else if sublist ''facebook.com'' url_lower \<or> sublist ''fb.com'' url_lower
           then Some ''facebook''
         else if sublist ''twitter.com'' url_lower \<or> sublist ''x.com'' url_lower
           then Some ''twitter''
         else if sublist ''tiktok.com'' url_lower then Some ''tiktok''
         else if sublist ''linkedin.com'' url_lower then Some ''linkedin''
         else None)"

text \<open>
  The specification's reading of the classifier: a fixed ordered list of domain
  fragments, each with its platform; the first fragment found in the lowered URL decides.
\<close>

definition platform_fragments :: "(string \<times> string) list" where
  "platform_fragments =
     [(''instagram.com'', ''instagram''),
      (''youtube.com'', ''youtube''), (''youtu.be'', ''youtube''),
      (''facebook.com'', ''facebook''), (''fb.com'', ''facebook''),
      (''twitter.com'', ''twitter''), (''x.com'', ''twitter''),
      (''tiktok.com'', ''tiktok''),
      (''linkedin.com'', ''linkedin'')]"

definition first_fragment_match :: "string \<Rightarrow> string option" where
  "first_fragment_match text =
     map_option snd (find (\<lambda>(fragment, platform). sublist fragment text) platform_fragments)"

section \<open>Values, exceptions and the records of the pipeline\<close>

text \<open>
  The records of the program are Python dicts with loosely typed values. A value that the
  code compares, adds or measures is a \<open>pyval\<close>: a number (ints, bools and finite
  floats, as a rational), a string, a list of strings, or None. An exception carries the
  text that \<^verbatim>\<open>str(e)\<close> gives; every handler of the source is \<^verbatim>\<open>except Exception\<close>
  or a bare \<^verbatim>\<open>except\<close>, so the class of the exception never matters.
\<close>

datatype pyval = PNum rat | PStr string | PList "string list" | PNone

datatype exn = Exn (exn_text: string)

text \<open>
  A search result is a dict that may hold \<^verbatim>\<open>url\<close>, \<^verbatim>\<open>title\<close> and
  \<^verbatim>\<open>description\<close>; a field is None when the key is missing. The title and the
  description only ever enter an f-string, so they are held as the text \<^verbatim>\<open>str()\<close>
  gives for them. The items of a source's list need not be dicts, and the value of a source
  need not be a list.
\<close>

record search_result =
  r_url :: "pyval option"
  r_title :: "string option"
  r_description :: "string option"

datatype result_item = ResultDict search_result | NotADict

datatype source_value = ResultList "result_item list" | NotAList

text \<open>
  A candidate is the dict \_identify\_viral\_content builds; it always has its six keys.
  Scores are Python floats that hold whole numbers (sums of the integer constants of the
  source), so they are integers here.
\<close>

record candidate =
  c_url :: string
  c_platform :: string
  c_source :: string
  c_title :: string
  c_description :: string
  c_initial_score :: int

subsection \<open>Digits, re.findall and int\<close>

definition is_digit :: "char \<Rightarrow> bool" where
  "is_digit c = (48 \<le> (of_char c :: nat) \<and> (of_char c :: nat) \<le> 57)"

text \<open>
  \<^verbatim>\<open>re.findall(r'\d+', text)\<close>: the maximal runs of digits, left to right. The first
  argument is the run being read.
\<close>

fun digit_runs :: "string \<Rightarrow> string \<Rightarrow> string list" where
  "digit_runs run [] = (if run = [] then [] else [run])"
| "digit_runs run (c # cs) =
     (if is_digit c then digit_runs (run @ [c]) cs
      else if run = [] then digit_runs [] cs
      else run # digit_runs [] cs)"

definition findall_digits :: "string \<Rightarrow> string list" where
  "findall_digits text = digit_runs [] text"

text \<open>
  \<^verbatim>\<open>num.isdigit()\<close>, which the code applies to the matches of \<^verbatim>\<open>\d+\<close> only: among
  the code points below 256 these hold the digits 0 to 9 and nothing else.
\<close>

definition py_isdigit :: "string \<Rightarrow> bool" where
  "py_isdigit s = (s \<noteq> [] \<and> list_all is_digit s)"

text \<open>
  The number a string of decimal digits denotes (Python's integers are unbounded), and
  \<^verbatim>\<open>int(num)\<close> on such a string: CPython (3.11 and later, and the security releases of
  the earlier lines) refuses a string of more than \<^verbatim>\<open>sys.get_int_max_str_digits()\<close>
  digits, 4300 unless the interpreter is told otherwise, with a ValueError. Leading
  zeros count.
\<close>

definition digits_value :: "string \<Rightarrow> int" where
  "digits_value s = foldl (\<lambda>acc c. 10 * acc + (int (of_char c) - 48)) 0 s"

definition int_max_str_digits :: nat where
  "int_max_str_digits = 4300"

definition int_of_digits :: "string \<Rightarrow> exn + int" where
  "int_of_digits num =
     (if int_max_str_digits < length num then Inl (Exn ''ValueError'')
      else Inr (digits_value num))"

definition text_content_of :: "string option \<Rightarrow> string option \<Rightarrow> string" where
  "text_content_of title description =
     (case title of None \<Rightarrow> [] | Some t \<Rightarrow> t) @ '' '' @
     (case description of None \<Rightarrow> [] | Some d \<Rightarrow> d)"

subsection \<open>\_is\_potentially\_viral\<close>

text \<open>
  \<^verbatim>\<open>
  viral_keywords = [
      'viral', 'trending', 'popular', 'milh\xf5es', 'millions',
      'views', 'visualiza\xe7\xf5es', 'curtidas', 'likes', 'shares',
      'compartilhamentos', 'coment\xe1rios', 'comments'
  ]
  text_content = f"{result.get('title', '')} {result.get('description', '')}".lower()
  has_viral_keywords = any(keyword in text_content for keyword in viral_keywords)
  numbers = re.findall(r'\d+', text_content)
  has_large_numbers = any(int(num) > 1000 for num in numbers if num.isdigit())
  return has_viral_keywords or has_large_numbers
  \<close>
  (the accented letters of the source are written as escapes here). The body stands in
  \<^verbatim>\<open>try ... except Exception: return False\<close>. The one statement that can raise is
  \<^verbatim>\<open>int(num)\<close>, inside \<^verbatim>\<open>any\<close>, which reads the numbers from the left and stops at
  the first one above 1000: \<open>any_large_number\<close>. When it raises, the function returns
  False, whatever keywords were found.
\<close>

fun any_large_number :: "string list \<Rightarrow> exn + bool" where
  "any_large_number [] = Inr False"
| "any_large_number (num # rest) =
     (if py_isdigit num then
        (case int_of_digits num of
           Inl e \<Rightarrow> Inl e
         | Inr v \<Rightarrow> if v > 1000 then Inr True else any_large_number rest)
      else any_large_number rest)"

definition viral_keywords :: "string list" where
  "viral_keywords =
     [''viral'', ''trending'', ''popular'', ''milh'' @ [CHR 0xF5] @ ''es'', ''millions'',
      ''views'', ''visualiza'' @ [CHR 0xE7, CHR 0xF5] @ ''es'', ''curtidas'', ''likes'',
      ''shares'', ''compartilhamentos'', ''coment'' @ [CHR 0xE1] @ ''rios'', ''comments'']"

definition is_potentially_viral :: "search_result \<Rightarrow> string \<Rightarrow> bool" where
  "is_potentially_viral result platform =
     (let text_content = py_lower (text_content_of (r_title result) (r_description result));
          has_viral_keywords = list_ex (\<lambda>keyword. sublist keyword text_content) viral_keywords;
          numbers = findall_digits text_content
      in case any_large_number numbers of
           Inl e \<Rightarrow> False
         | Inr has_large_numbers \<Rightarrow> has_viral_keywords \<or> has_large_numbers)"

subsection \<open>\_calculate\_initial\_score\<close>

text \<open>
  \<^verbatim>\<open>
  score = 0.0
  try:
      text_content = f"{result.get('title', '')} {result.get('description', '')}".lower()
      viral_keywords = {
          'viral': 10, 'trending': 8, 'popular': 6,
          'milh\xf5es': 15, 'millions': 15,
          'views': 5, 'visualiza\xe7\xf5es': 5,
          'curtidas': 3, 'likes': 3
      }
      for keyword, points in viral_keywords.items():
          if keyword in text_content:
              score += points
      numbers = re.findall(r'\d+', text_content)
      for num in numbers:
          if num.isdigit():
              value = int(num)
              if value > 1000000:
                  score += 20
              elif value > 100000:
                  score += 15
              elif value > 10000:
                  score += 10
              elif value > 1000:
                  score += 5
  except Exception as e:
      logger.debug(...)
  return min(score, 100.0)
  \<close>
  The first loop is a fold over the score, in the order of the dict; it cannot raise. In
  the second loop \<^verbatim>\<open>int(num)\<close> can: \<open>number_step\<close> is one pass of its body, which
  either raises before the score changes or returns the new score.

  A \<^verbatim>\<open>try\<close> whose body is a sequence of statements on the score and whose
  \<^verbatim>\<open>except\<close> only logs: the first statement that raises ends the sequence and leaves
  the score as it stood.
\<close>

fun run_try :: "(int \<Rightarrow> exn + int) list \<Rightarrow> int \<Rightarrow> int" where
  "run_try [] score = score"
| "run_try (stage # rest) score =
     (case stage score of Inl e \<Rightarrow> score | Inr score' \<Rightarrow> run_try rest score')"

definition viral_keyword_weights :: "(string \<times> int) list" where
  "viral_keyword_weights =
     [(''viral'', 10), (''trending'', 8), (''popular'', 6),
      (''milh'' @ [CHR 0xF5] @ ''es'', 15), (''millions'', 15),
      (''views'', 5), (''visualiza'' @ [CHR 0xE7, CHR 0xF5] @ ''es'', 5),
      (''curtidas'', 3), (''likes'', 3)]"

definition keyword_step :: "string \<Rightarrow> string \<times> int \<Rightarrow> int \<Rightarrow> int" where
  "keyword_step text_content kw score =
     (if sublist (fst kw) text_content then score + snd kw else score)"

definition number_step :: "string \<Rightarrow> int \<Rightarrow> exn + int" where
  "number_step num score =
     (if py_isdigit num then
        (case int_of_digits num of
           Inl e \<Rightarrow> Inl e
         | Inr v \<Rightarrow>
             Inr (if v > 1000000 then score + 20
                  else if v > 100000 then score + 15
                  else if v > 10000 then score + 10
                  else if v > 1000 then score + 5
                  else score))
      else Inr score)"

definition calculate_initial_score :: "search_result \<Rightarrow> string \<Rightarrow> int" where
  "calculate_initial_score result platform =
     (let text_content = py_lower (text_content_of (r_title result) (r_description result));
          score = fold (keyword_step text_content) viral_keyword_weights 0;
          numbers = findall_digits text_content;
          score = run_try (map number_step numbers) score
      in min score 100)"

subsection \<open>\_identify\_viral\_content\<close>

text \<open>
  \<^verbatim>\<open>
  viral_content = []
  try:
      for source, results in search_results.items():
          if isinstance(results, list):
              for result in results:
                  if isinstance(result, dict) and 'url' in result:
                      url = result['url']
                      platform = self._identify_platform(url)
                      if platform and self._is_potentially_viral(result, platform):
                          viral_content.append({
                              'url': url, 'platform': platform, 'source': source,
                              'title': result.get('title', ''),
                              'description': result.get('description', ''),
                              'initial_score': self._calculate_initial_score(result, platform)
                          })
  except Exception as e:
      logger.error(...)
  return viral_content
  \<close>
  A \<^verbatim>\<open>url\<close> that is not a string makes \<^verbatim>\<open>url.lower()\<close> raise AttributeError; the
  single \<^verbatim>\<open>try\<close> around both loops then ends the scan, and what was collected so far
  is returned. The scans return the list and the exception that ended them, if any.
\<close>

definition consider_result :: "string \<Rightarrow> result_item \<Rightarrow> exn + candidate list" where
  "consider_result source item =
     (case item of
        NotADict \<Rightarrow> Inr []
      | ResultDict result \<Rightarrow>
          (case r_url result of
             None \<Rightarrow> Inr []
           | Some (PStr url) \<Rightarrow>
               (case identify_platform url of
                  None \<Rightarrow> Inr []
                | Some platform \<Rightarrow>
                    if is_potentially_viral result platform then
                      Inr [\<lparr>c_url = url, c_platform = platform, c_source = source,
                            c_title = (case r_title result of None \<Rightarrow> [] | Some t \<Rightarrow> t),
                            c_description =
                              (case r_description result of None \<Rightarrow> [] | Some d \<Rightarrow> d),
                            c_initial_score = calculate_initial_score result platform\<rparr>]
                    else Inr [])
           | Some _ \<Rightarrow> Inl (Exn ''AttributeError'')))"

fun scan_results :: "string \<Rightarrow> result_item list \<Rightarrow> candidate list \<Rightarrow> candidate list \<times> exn option" where
  "scan_results source [] viral_content = (viral_content, None)"
| "scan_results source (item # items) viral_content =
     (case consider_result source item of
        Inl e \<Rightarrow> (viral_content, Some e)
      | Inr new \<Rightarrow> scan_results source items (viral_content @ new))"

fun scan_sources :: "(string \<times> source_value) list \<Rightarrow> candidate list \<Rightarrow> candidate list \<times> exn option" where
  "scan_sources [] viral_content = (viral_content, None)"
| "scan_sources ((source, results) # rest) viral_content =
     (case results of
        NotAList \<Rightarrow> scan_sources rest viral_content
      | ResultList items \<Rightarrow>
          (case scan_results source items viral_content of
             (viral_content', Some e) \<Rightarrow> (viral_content', Some e)
           | (viral_content', None) \<Rightarrow> scan_sources rest viral_content'))"

definition identify_viral_content :: "(string \<times> source_value) list \<Rightarrow> candidate list" where
  "identify_viral_content search_results = fst (scan_sources search_results [])"

text \<open>
  The specification's reading of the initial score: the weights of the keywords that
  occur, each once, plus one magnitude bonus for every embedded number, the sum clamped
  to the range from 0 to 100.
\<close>

definition magnitude_bonus :: "int \<Rightarrow> int" where
  "magnitude_bonus v =
     (if v > 1000000 then 20 else if v > 100000 then 15
      else if v > 10000 then 10 else if v > 1000 then 5 else 0)"


text \<open>
  The same reading over the numbers the second loop gets to: those in front of the first
  number that \<^verbatim>\<open>int\<close> refuses, all of them when there is none.
\<close>

definition numbers_read :: "string list \<Rightarrow> string list" where
  "numbers_read numbers = takeWhile (\<lambda>num. length num \<le> int_max_str_digits) numbers"


section \<open>The enrichment adapter\<close>

text \<open>
  An analysis record is the dict an enrichment path returns. The fields are those the
  program computes with; a metric is None when the dict has no such key. The remaining
  keys (\<^verbatim>\<open>caption\<close>, \<^verbatim>\<open>timestamp\<close>, \<^verbatim>\<open>owner\<close>, \<^verbatim>\<open>is_video\<close> and the wall-clock
  \<^verbatim>\<open>analysis_timestamp\<close>) are carried along by the source and never read by the code
  modelled here; they are left out. Every path sets \<^verbatim>\<open>viral_score\<close> to a score
  (an initial score or the result of \_calculate\_viral\_score), hence an integer.
\<close>

record analysis =
  a_url :: string
  a_platform :: string
  a_title :: string
  a_description :: "string option"
  a_likes :: "pyval option"
  a_comments :: "pyval option"
  a_views :: "pyval option"
  a_engagement_rate :: "pyval option"
  a_hashtags :: "pyval option"
  a_mentions :: "pyval option"
  a_viral_score :: int
  a_analysis_method :: "string option"

definition dict_get :: "('k \<times> 'v) list \<Rightarrow> 'k \<Rightarrow> 'v \<Rightarrow> 'v" where
  "dict_get d k fallback = (case map_of d k of None \<Rightarrow> fallback | Some v \<Rightarrow> v)"

definition field_or :: "'v \<Rightarrow> 'v option \<Rightarrow> 'v" where
  "field_or fallback field = (case field of None \<Rightarrow> fallback | Some v \<Rightarrow> v)"

subsection \<open>\_calculate\_viral\_score\<close>

definition viral_thresholds :: "(string \<times> (string \<times> rat) list) list" where
  "viral_thresholds =
     [(''youtube'', [(''min_views'', 10000), (''min_likes'', 500), (''min_comments'', 50),
                     (''engagement_rate'', 5 / 100)]),
      (''instagram'', [(''min_likes'', 1000), (''min_comments'', 50),
                       (''engagement_rate'', 3 / 100)]),
      (''facebook'', [(''min_likes'', 1000), (''min_comments'', 50),
                      (''engagement_rate'', 3 / 100)]),
      (''twitter'', [(''min_retweets'', 100), (''min_likes'', 500), (''min_replies'', 20)]),
      (''tiktok'', [(''min_views'', 50000), (''min_likes'', 2000), (''min_shares'', 100)])]"

text \<open>
  \<^verbatim>\<open>v >= t\<close> against a number raises TypeError unless \<open>v\<close> is a number; \<^verbatim>\<open>len(v)\<close>
  raises TypeError on a number and on None.
\<close>

definition py_ge :: "pyval \<Rightarrow> rat \<Rightarrow> exn + bool" where
  "py_ge v t = (case v of PNum x \<Rightarrow> Inr (t \<le> x) | _ \<Rightarrow> Inl (Exn ''TypeError''))"

definition py_len :: "pyval \<Rightarrow> exn + nat" where
  "py_len v =
     (case v of PStr s \<Rightarrow> Inr (length s) | PList l \<Rightarrow> Inr (length l)
      | _ \<Rightarrow> Inl (Exn ''TypeError''))"

text \<open>
  One \<^verbatim>\<open>if v >= hi: score += full / elif v >= lo: score += half\<close> statement: it either
  raises before the score changes, or returns the new score.
\<close>

definition tier_stage :: "pyval \<Rightarrow> rat \<Rightarrow> rat \<Rightarrow> int \<Rightarrow> int \<Rightarrow> int \<Rightarrow> exn + int" where
  "tier_stage v hi lo full half score =
     (case py_ge v hi of
        Inl e \<Rightarrow> Inl e
      | Inr reached \<Rightarrow>
          if reached then Inr (score + full)
          else (case py_ge v lo of
                  Inl e \<Rightarrow> Inl e
                | Inr half_reached \<Rightarrow> Inr (if half_reached then score + half else score)))"

text \<open>
  \<^verbatim>\<open>
  hashtags = len(analysis.get('hashtags', []))
  mentions = len(analysis.get('mentions', []))
  score += min(hashtags * 2, 10)
  score += min(mentions * 3, 15)
  \<close>
\<close>

definition bonus_stage :: "pyval \<Rightarrow> pyval \<Rightarrow> int \<Rightarrow> exn + int" where
  "bonus_stage hashtags mentions score =
     (case py_len hashtags of
        Inl e \<Rightarrow> Inl e
      | Inr h \<Rightarrow>
          (case py_len mentions of
             Inl e \<Rightarrow> Inl e
           | Inr m \<Rightarrow> Inr (score + min (int h * 2) 10 + min (int m * 3) 15)))"

text \<open>
  The body of the \<^verbatim>\<open>try\<close> is a sequence of such statements, run by \<open>run_try\<close>.
\<close>

definition instagram_stages :: "analysis \<Rightarrow> (string \<times> rat) list \<Rightarrow> (int \<Rightarrow> exn + int) list" where
  "instagram_stages a thresholds =
     (let likes = field_or (PNum 0) (a_likes a);
          comments = field_or (PNum 0) (a_comments a);
          engagement_rate = field_or (PNum 0) (a_engagement_rate a)
      in [tier_stage likes (dict_get thresholds ''min_likes'' 1000)
            (dict_get thresholds ''min_likes'' 1000 * (1 / 2)) 30 15,
          tier_stage comments (dict_get thresholds ''min_comments'' 50)
            (dict_get thresholds ''min_comments'' 50 * (1 / 2)) 20 10,
          tier_stage engagement_rate (dict_get thresholds ''engagement_rate'' (3 / 100) * 100)
            (dict_get thresholds ''engagement_rate'' (3 / 100) * 50) 25 15,
          bonus_stage (field_or (PList []) (a_hashtags a)) (field_or (PList []) (a_mentions a))])"

definition youtube_stages :: "analysis \<Rightarrow> (string \<times> rat) list \<Rightarrow> (int \<Rightarrow> exn + int) list" where
  "youtube_stages a thresholds =
     (let views = field_or (PNum 0) (a_views a);
          likes = field_or (PNum 0) (a_likes a);
          comments = field_or (PNum 0) (a_comments a)
      in [tier_stage views (dict_get thresholds ''min_views'' 10000)
            (dict_get thresholds ''min_views'' 10000 * (1 / 2)) 40 20,
          tier_stage likes (dict_get thresholds ''min_likes'' 500)
            (dict_get thresholds ''min_likes'' 500 * (1 / 2)) 20 10,
          tier_stage comments (dict_get thresholds ''min_comments'' 50)
            (dict_get thresholds ''min_comments'' 50 * (1 / 2)) 15 8])"

text \<open>
  \<^verbatim>\<open>
  def _calculate_viral_score(self, analysis: Dict, platform: str) -> float:
      score = 0.0
      try:
          thresholds = self.viral_thresholds.get(platform, {})
          if platform == 'instagram':
              likes = analysis.get('likes', 0)
              comments = analysis.get('comments', 0)
              if likes >= thresholds.get('min_likes', 1000):
                  score += 30
              elif likes >= thresholds.get('min_likes', 1000) * 0.5:
                  score += 15
              if comments >= thresholds.get('min_comments', 50):
                  score += 20
              elif comments >= thresholds.get('min_comments', 50) * 0.5:
                  score += 10
              engagement_rate = analysis.get('engagement_rate', 0)
              if engagement_rate >= thresholds.get('engagement_rate', 0.03) * 100:
                  score += 25
              elif engagement_rate >= thresholds.get('engagement_rate', 0.03) * 50:
                  score += 15
              (the hashtag and mention bonus shown above)
          elif platform == 'youtube':
              views = analysis.get('views', 0)
              likes = analysis.get('likes', 0)
              comments = analysis.get('comments', 0)
              if views >= thresholds.get('min_views', 10000):
                  score += 40
              elif views >= thresholds.get('min_views', 10000) * 0.5:
                  score += 20
              if likes >= thresholds.get('min_likes', 500):
                  score += 20
              elif likes >= thresholds.get('min_likes', 500) * 0.5:
                  score += 10
              if comments >= thresholds.get('min_comments', 50):
                  score += 15
              elif comments >= thresholds.get('min_comments', 50) * 0.5:
                  score += 8
      except Exception as e:
          logger.debug(...)
      return min(score, 100.0)
  \<close>
  The thresholds are the floats 0.03 and 0.05 in the source; their products with 100 and
  50 are the doubles 3.0, 1.5, 5.0 and 2.5, the values of the rationals used here.
\<close>

definition calculate_viral_score :: "analysis \<Rightarrow> string \<Rightarrow> int" where
  "calculate_viral_score a platform =
     (let thresholds = dict_get viral_thresholds platform [];
          stages = (if platform = ''instagram'' then instagram_stages a thresholds
                    else if platform = ''youtube'' then youtube_stages a thresholds
                    else [])
      in min (run_try stages 0) 100)"

subsection \<open>\_basic\_url\_analysis\<close>

text \<open>
  \<^verbatim>\<open>
  async def _basic_url_analysis(self, url: str, content: Dict) -> Optional[Dict]:
      try:
          analysis = {
              'url': url,
              'platform': content.get('platform', 'other'),
              'title': content.get('title', ''),
              'description': content.get('description', ''),
              'viral_score': content.get('initial_score', 0),
              'analysis_timestamp': datetime.now().isoformat(),
              'analysis_method': 'basic_fallback'
          }
          return analysis
      except Exception as e:
          return None
  \<close>
  \<open>basic_record\<close> is the dict literal. A candidate has all its keys, so the defaults of
  \<^verbatim>\<open>content.get\<close> are never taken, and nothing in the body raises.
\<close>

definition basic_record :: "string \<Rightarrow> candidate \<Rightarrow> analysis" where
  "basic_record url content =
     \<lparr>a_url = url, a_platform = c_platform content, a_title = c_title content,
      a_description = Some (c_description content),
      a_likes = None, a_comments = None, a_views = None, a_engagement_rate = None,
      a_hashtags = None, a_mentions = None,
      a_viral_score = c_initial_score content,
      a_analysis_method = Some ''basic_fallback''\<rparr>"

definition basic_url_analysis :: "string \<Rightarrow> candidate \<Rightarrow> analysis option" where
  "basic_url_analysis url content = Some (basic_record url content)"

subsection \<open>\_analyze\_youtube\_video\<close>

text \<open>
  The view count is read with
  \<^verbatim>\<open>re.findall(r'(\d+(?:\.\d+)?)\s*(?:million|milh\xe3o|mil|k|thousand)', text.lower())\<close>.
  At a position the pattern matches exactly when the greedy reading does: the digits, a
  dot with digits if there is one, the white space, then the first unit word that is a
  prefix of what follows (a shorter run of digits or spaces is followed by a digit or a
  space, where no unit word starts). \<open>match_number_unit\<close> returns the captured number and
  the length of the whole match; \<open>findall_number_unit\<close> resumes after each match.
\<close>

definition is_space :: "char \<Rightarrow> bool" where
  "is_space c =
     (let n = (of_char c :: nat)
      in (9 \<le> n \<and> n \<le> 13) \<or> (28 \<le> n \<and> n \<le> 32) \<or> n = 133 \<or> n = 160)"

definition unit_words :: "string list" where
  "unit_words = [''million'', ''milh'' @ [CHR 0xE3] @ ''o'', ''mil'', ''k'', ''thousand'']"

definition match_number_unit :: "string \<Rightarrow> (string \<times> nat) option" where
  "match_number_unit s =
     (let whole = takeWhile is_digit s;
          after_whole = dropWhile is_digit s;
          fraction =
            (case after_whole of
               [] \<Rightarrow> []
             | c # r \<Rightarrow>
                 if c = CHR ''.'' \<and> takeWhile is_digit r \<noteq> [] then c # takeWhile is_digit r
                 else []);
          after_number = drop (length fraction) after_whole;
          spaces = takeWhile is_space after_number;
          after_spaces = dropWhile is_space after_number
      in if whole = [] then None
         else (case find (\<lambda>u. prefix u after_spaces) unit_words of
                 None \<Rightarrow> None
               | Some u \<Rightarrow>
                   Some (whole @ fraction,
                         length whole + length fraction + length spaces + length u)))"

fun findall_number_unit :: "nat \<Rightarrow> string \<Rightarrow> string list" where
  "findall_number_unit skip [] = []"
| "findall_number_unit (Suc skip) (c # cs) = findall_number_unit skip cs"
| "findall_number_unit 0 (c # cs) =
     (case match_number_unit (c # cs) of
        None \<Rightarrow> findall_number_unit 0 cs
      | Some (number, len) \<Rightarrow> number # findall_number_unit (len - 1) cs)"

text \<open>
  A Python float is an IEEE 754 double. A finite double is the rational it denotes; the
  infinities (of either sign) are one value. \<open>to_float\<close> rounds a rational to the
  nearest double, ties to the even mantissa, as the conversion of a decimal string and
  each arithmetic operation on doubles do: \<open>binade x\<close> is the exponent \<open>e\<close> with
  \<open>2^e \<le> x < 2^(e+1)\<close>, the mantissa has 53 bits, the smallest exponent is -1022 (below
  it the doubles are evenly spaced), and a result of \<open>2^1024\<close> or more is infinite.
\<close>

datatype pyfloat = Finite rat | Infinity

definition pow2 :: "int \<Rightarrow> rat" where
  "pow2 k = (if 0 \<le> k then 2 ^ nat k else 1 / 2 ^ nat (- k))"

definition binade :: "rat \<Rightarrow> int" where
  "binade x =
     (let (p, q) = quotient_of x;
          e = bitlen p - bitlen q
      in if pow2 e \<le> x then e else e - 1)"

definition round_half_even :: "rat \<Rightarrow> int" where
  "round_half_even x =
     (let f = \<lfloor>x\<rfloor>; d = x - of_int f
      in if d < 1 / 2 then f
         else if 1 / 2 < d then f + 1
         else if even f then f else f + 1)"

definition to_float :: "rat \<Rightarrow> pyfloat" where
  "to_float x =
     (if x = 0 then Finite 0
      else
        (let a = \<bar>x\<bar>; e = max (binade a) (- 1022)
         in if 1023 < e then Infinity
            else
              (let m = round_half_even (a * pow2 (52 - e))
               in if e = 1023 \<and> m = 2 ^ 53 then Infinity
                  else Finite (sgn x * of_int m * pow2 (e - 52)))))"

text \<open>
  \<^verbatim>\<open>float(s)\<close> on the strings the pattern captures (digits, or digits, a dot and
  digits) is the double nearest to the decimal; any other string counts as a ValueError.
  \<^verbatim>\<open>num *= k\<close> rounds the product; \<^verbatim>\<open>int(num)\<close> cuts the fraction off and raises
  OverflowError on an infinite float.
\<close>

definition is_decimal :: "string \<Rightarrow> bool" where
  "is_decimal s =
     (let whole = takeWhile is_digit s; rest = dropWhile is_digit s
      in whole \<noteq> [] \<and>
         (case rest of [] \<Rightarrow> True | c # r \<Rightarrow> c = CHR ''.'' \<and> py_isdigit r))"

definition decimal_value :: "string \<Rightarrow> rat" where
  "decimal_value s =
     (let whole = takeWhile is_digit s; fraction = drop (Suc (length whole)) s
      in of_int (digits_value whole) + of_int (digits_value fraction) / 10 ^ length fraction)"

definition py_float :: "string \<Rightarrow> exn + pyfloat" where
  "py_float s =
     (if is_decimal s then Inr (to_float (decimal_value s)) else Inl (Exn ''ValueError''))"

definition float_times :: "pyfloat \<Rightarrow> rat \<Rightarrow> pyfloat" where
  "float_times f k = (case f of Finite x \<Rightarrow> to_float (x * k) | Infinity \<Rightarrow> Infinity)"

definition py_int :: "pyfloat \<Rightarrow> exn + int" where
  "py_int f =
     (case f of
        Finite x \<Rightarrow> Inr (if 0 \<le> x then \<lfloor>x\<rfloor> else \<lceil>x\<rceil>)
      | Infinity \<Rightarrow> Inl (Exn ''OverflowError''))"

definition replace_comma :: "string \<Rightarrow> string" where
  "replace_comma s = map (\<lambda>c. if c = CHR '','' then CHR ''.'' else c) s"

text \<open>
  \<^verbatim>\<open>
  for num_str in numbers:
      try:
          num = float(num_str.replace(',', '.'))
          if 'million' in text_content.lower() or 'milh\xe3o' in text_content.lower():
              num *= 1000000
          elif 'mil' in text_content.lower() or 'k' in text_content.lower() \
                  or 'thousand' in text_content.lower():
              num *= 1000
          if analysis['views'] == 0:
              analysis['views'] = int(num)
          break
      except:
          continue
  \<close>
  \<open>scale_by_unit\<close> is the \<^verbatim>\<open>if/elif\<close> on the whole lowered text; \<open>parse_views\<close> is the body
  of the \<^verbatim>\<open>try\<close>; \<open>first_views\<close> is the loop, which ends at the first number that does not
  raise.
\<close>

definition scale_by_unit :: "string \<Rightarrow> pyfloat \<Rightarrow> pyfloat" where
  "scale_by_unit lowered num =
     (if sublist ''million'' lowered \<or> sublist (''milh'' @ [CHR 0xE3] @ ''o'') lowered
        then float_times num 1000000
      else if sublist ''mil'' lowered \<or> sublist ''k'' lowered \<or> sublist ''thousand'' lowered
        then float_times num 1000
      else num)"

definition parse_views :: "string \<Rightarrow> string \<Rightarrow> exn + int" where
  "parse_views lowered num_str =
     (case py_float (replace_comma num_str) of
        Inl e \<Rightarrow> Inl e
      | Inr num \<Rightarrow> py_int (scale_by_unit lowered num))"

fun first_views :: "string \<Rightarrow> string list \<Rightarrow> int" where
  "first_views lowered [] = 0"
| "first_views lowered (num_str # rest) =
     (case parse_views lowered num_str of
        Inl e \<Rightarrow> first_views lowered rest
      | Inr views \<Rightarrow> views)"

definition youtube_views :: "string \<Rightarrow> string \<Rightarrow> int" where
  "youtube_views title description =
     (let text_content = title @ '' '' @ description;
          numbers = findall_number_unit 0 (py_lower text_content)
      in first_views (py_lower text_content) numbers)"

definition analyze_youtube_video :: "string \<Rightarrow> candidate \<Rightarrow> analysis option" where
  "analyze_youtube_video url content =
     Some \<lparr>a_url = url, a_platform = ''youtube'', a_title = c_title content,
           a_description = Some (c_description content),
           a_likes = Some (PNum 0), a_comments = Some (PNum 0),
           a_views = Some (PNum (of_int (youtube_views (c_title content) (c_description content)))),
           a_engagement_rate = Some (PNum 0),
           a_hashtags = None, a_mentions = None,
           a_viral_score = c_initial_score content,
           a_analysis_method = Some ''basic_fallback''\<rparr>"

subsection \<open>\_analyze\_instagram\_post\<close>

text \<open>
  The scraping library is outside the program: \<open>scrape url\<close> stands for
  \<^verbatim>\<open>Post(url)\<close> followed by \<^verbatim>\<open>post.scrape()\<close>, and either raises or yields the post.
  A field of the post is None when the attribute is missing (\<^verbatim>\<open>getattr\<close> then gives
  the default); \<open>p_followers\<close> is None unless the post has an owner with a
  \<^verbatim>\<open>followers\<close> attribute. Any exception makes the function return None.
\<close>

record post =
  p_likes :: "pyval option"
  p_comments :: "pyval option"
  p_hashtags :: "pyval option"
  p_mentions :: "pyval option"
  p_followers :: "pyval option"

text \<open>
  \<^verbatim>\<open>(analysis['likes'] + analysis['comments']) / followers * 100\<close>: anything but two
  numbers raises TypeError, in the sum or in the division. The counts are Python ints
  (or doubles that hold whole numbers below \<open>2^53\<close>): their sum is exact, the true
  division gives the double nearest to the quotient and raises OverflowError when that
  is infinite, and the product with 100 is rounded once more. A product beyond the
  doubles would be stored as infinity, which \<open>pyval\<close> does not hold; it counts as a
  raise as well.
\<close>

definition engagement_rate_of :: "pyval \<Rightarrow> pyval \<Rightarrow> pyval option \<Rightarrow> exn + pyval" where
  "engagement_rate_of likes comments followers =
     (case followers of
        None \<Rightarrow> Inr (PNum 0)
      | Some (PNum f) \<Rightarrow>
          if f > 0 then
            (case (likes, comments) of
               (PNum l, PNum c) \<Rightarrow>
                 (case to_float ((l + c) / f) of
                    Infinity \<Rightarrow> Inl (Exn ''OverflowError'')
                  | Finite ratio \<Rightarrow>
                      (case to_float (ratio * 100) of
                         Infinity \<Rightarrow> Inl (Exn ''OverflowError'')
                       | Finite rate \<Rightarrow> Inr (PNum rate)))
             | _ \<Rightarrow> Inl (Exn ''TypeError''))
          else Inr (PNum 0)
      | Some _ \<Rightarrow> Inl (Exn ''TypeError''))"

definition analyze_instagram_post :: "(string \<Rightarrow> exn + post) \<Rightarrow> string \<Rightarrow> candidate \<Rightarrow> analysis option" where
  "analyze_instagram_post scrape url content =
     (case scrape url of
        Inl e \<Rightarrow> None
      | Inr post \<Rightarrow>
          (let likes = field_or (PNum 0) (p_likes post);
               comments = field_or (PNum 0) (p_comments post)
           in case engagement_rate_of likes comments (p_followers post) of
                Inl e \<Rightarrow> None
              | Inr rate \<Rightarrow>
                  (let analysis =
                        \<lparr>a_url = url, a_platform = ''instagram'', a_title = c_title content,
                         a_description = None,
                         a_likes = Some likes, a_comments = Some comments, a_views = None,
                         a_engagement_rate = Some rate,
                         a_hashtags = Some (field_or (PList []) (p_hashtags post)),
                         a_mentions = Some (field_or (PList []) (p_mentions post)),
                         a_viral_score = 0, a_analysis_method = None\<rparr>
                   in Some (analysis\<lparr>a_viral_score :=
                              calculate_viral_score analysis ''instagram''\<rparr>))))"

subsection \<open>The platform buckets\<close>

text \<open>
  \<^verbatim>\<open>platform_analysis\<close> is a dict from bucket names to lists, in insertion order.
  \<^verbatim>\<open>platform_analysis[key].append(a)\<close> raises KeyError when the key is missing;
  \<^verbatim>\<open>platform_analysis.get(platform, platform_analysis['other']).append(a)\<close> evaluates
  the default first, then appends to the platform's list if the dict has one and to the
  list of \<^verbatim>\<open>other\<close> if not.
\<close>

type_synonym buckets = "(string \<times> analysis list) list"

definition empty_buckets :: buckets where
  "empty_buckets =
     [(''instagram'', []), (''youtube'', []), (''facebook'', []), (''twitter'', []),
      (''tiktok'', []), (''other'', [])]"

definition bucket_append :: "buckets \<Rightarrow> string \<Rightarrow> analysis \<Rightarrow> buckets" where
  "bucket_append pa key a = map (\<lambda>(k, items). if k = key then (k, items @ [a]) else (k, items)) pa"

definition append_at :: "buckets \<Rightarrow> string \<Rightarrow> analysis \<Rightarrow> exn + buckets" where
  "append_at pa key a =
     (case map_of pa key of
        None \<Rightarrow> Inl (Exn ''KeyError'')
      | Some items \<Rightarrow> Inr (bucket_append pa key a))"

definition append_get_other :: "buckets \<Rightarrow> string \<Rightarrow> analysis \<Rightarrow> exn + buckets" where
  "append_get_other pa platform a =
     (case map_of pa ''other'' of
        None \<Rightarrow> Inl (Exn ''KeyError'')
      | Some other_items \<Rightarrow>
          (case map_of pa platform of
             Some items \<Rightarrow> Inr (bucket_append pa platform a)
           | None \<Rightarrow> Inr (bucket_append pa ''other'' a)))"

text \<open>
  The bucket a platform tag is routed to by \<^verbatim>\<open>.get(platform, ...['other'])\<close> on a
  dict with the six keys above: its own when it is one of the keys, \<^verbatim>\<open>other\<close> if not.
\<close>

definition bucket_key :: "string \<Rightarrow> string" where
  "bucket_key platform =
     (if platform \<in> {''instagram'', ''youtube'', ''facebook'', ''twitter'', ''tiktok'', ''other''}
      then platform else ''other'')"

subsection \<open>\_basic\_analysis\_fallback and \_analyze\_with\_instascrape\<close>

text \<open>
  Both loops wrap each item in \<^verbatim>\<open>try ... except Exception: continue\<close>: an item whose
  step raises leaves the buckets as they were. The pause between two items
  (\<^verbatim>\<open>asyncio.sleep(1)\<close>) changes no value and is left out.
  \<^verbatim>\<open>
  for content in viral_urls:
      try:
          platform = content.get('platform', 'other')
          analysis = await self._basic_url_analysis(content['url'], content)
          if analysis:
              platform_analysis.get(platform, platform_analysis['other']).append(analysis)
      except Exception as e:
          continue
  \<close>
\<close>

definition fallback_step :: "buckets \<Rightarrow> candidate \<Rightarrow> exn + buckets" where
  "fallback_step pa content =
     (let platform = c_platform content
      in case basic_url_analysis (c_url content) content of
           None \<Rightarrow> Inr pa
         | Some analysis \<Rightarrow> append_get_other pa platform analysis)"

fun each_item :: "(buckets \<Rightarrow> candidate \<Rightarrow> exn + buckets) \<Rightarrow> candidate list \<Rightarrow> buckets \<Rightarrow> buckets" where
  "each_item step [] pa = pa"
| "each_item step (content # rest) pa =
     (case step pa content of
        Inl e \<Rightarrow> each_item step rest pa
      | Inr pa' \<Rightarrow> each_item step rest pa')"

definition basic_analysis_fallback :: "candidate list \<Rightarrow> buckets" where
  "basic_analysis_fallback viral_urls = each_item fallback_step viral_urls empty_buckets"

text \<open>
  \<^verbatim>\<open>
  if not HAS_INSTASCRAPE:
      return await self._basic_analysis_fallback(viral_urls)
  for content in viral_urls:
      try:
          url = content['url']
          platform = content['platform']
          if platform == 'instagram':
              analysis = await self._analyze_instagram_post(url, content)
              if analysis:
                  platform_analysis['instagram'].append(analysis)
          elif platform == 'youtube':
              analysis = await self._analyze_youtube_video(url, content)
              if analysis:
                  platform_analysis['youtube'].append(analysis)
          else:
              analysis = await self._basic_url_analysis(url, content)
              if analysis:
                  platform_analysis.get(platform, platform_analysis['other']).append(analysis)
          await asyncio.sleep(1)
      except Exception as e:
          continue
  return platform_analysis
  \<close>
  \<open>has_instascrape\<close> is the module constant \<^verbatim>\<open>HAS_INSTASCRAPE\<close>: whether the import of
  the scraping library succeeded.
\<close>

definition instascrape_step :: "(string \<Rightarrow> exn + post) \<Rightarrow> buckets \<Rightarrow> candidate \<Rightarrow> exn + buckets" where
  "instascrape_step scrape pa content =
     (let url = c_url content; platform = c_platform content
      in if platform = ''instagram'' then
           (case analyze_instagram_post scrape url content of
              None \<Rightarrow> Inr pa
            | Some analysis \<Rightarrow> append_at pa ''instagram'' analysis)
         else if platform = ''youtube'' then
           (case analyze_youtube_video url content of
              None \<Rightarrow> Inr pa
            | Some analysis \<Rightarrow> append_at pa ''youtube'' analysis)
         else
           (case basic_url_analysis url content of
              None \<Rightarrow> Inr pa
            | Some analysis \<Rightarrow> append_get_other pa platform analysis))"

definition analyze_with_instascrape :: "bool \<Rightarrow> (string \<Rightarrow> exn + post) \<Rightarrow> candidate list \<Rightarrow> buckets" where
  "analyze_with_instascrape has_instascrape scrape viral_urls =
     (if \<not> has_instascrape then basic_analysis_fallback viral_urls
      else each_item (instascrape_step scrape) viral_urls empty_buckets)"

section \<open>Top performers and the top-level run\<close>

subsection \<open>\_get\_top\_performers\<close>

text \<open>
  \<^verbatim>\<open>
  def _get_top_performers(self, platform_analysis: Dict, top_n: int = 10) -> List[Dict]:
      all_content = []
      try:
          for platform, content_list in platform_analysis.items():
              all_content.extend(content_list)
          top_performers = sorted(
              all_content, key=lambda x: x.get('viral_score', 0), reverse=True
          )[:top_n]
          return top_performers
      except Exception as e:
          return []
  \<close>
  Python's \<^verbatim>\<open>sorted\<close> is a stable sort, also with \<^verbatim>\<open>reverse=True\<close>; it is given
  here as the insertion sort that puts an item in front of the first item whose key is
  not greater. A slice \<^verbatim>\<open>xs[:n]\<close> with a negative \<open>n\<close> drops the last \<open>-n\<close> items.
  The scores are numbers, so no comparison raises.
\<close>

fun insert_desc :: "('a \<Rightarrow> int) \<Rightarrow> 'a \<Rightarrow> 'a list \<Rightarrow> 'a list" where
  "insert_desc key x [] = [x]"
| "insert_desc key x (y # ys) =
     (if key y \<le> key x then x # y # ys else y # insert_desc key x ys)"

fun sorted_reverse :: "('a \<Rightarrow> int) \<Rightarrow> 'a list \<Rightarrow> 'a list" where
  "sorted_reverse key [] = []"
| "sorted_reverse key (x # xs) = insert_desc key x (sorted_reverse key xs)"

definition slice_to :: "int \<Rightarrow> 'a list \<Rightarrow> 'a list" where
  "slice_to n xs = (if 0 \<le> n then take (nat n) xs else take (length xs - nat (- n)) xs)"

definition all_content_of :: "buckets \<Rightarrow> analysis list" where
  "all_content_of platform_analysis = concat (map snd platform_analysis)"

definition get_top_performers :: "buckets \<Rightarrow> int \<Rightarrow> analysis list" where
  "get_top_performers platform_analysis top_n =
     slice_to top_n (sorted_reverse a_viral_score (all_content_of platform_analysis))"

definition default_top_n :: int where
  "default_top_n = 10"

subsection \<open>analyze\_and\_capture\_viral\_content\<close>

text \<open>
  The result dict of a run. \<open>viral_metrics\<close> and \<open>engagement_insights\<close> start as empty
  dicts (None here) and are filled by two aggregation functions whose values no claim
  reads: their types are parameters. \<open>success\<close> and \<open>error_message\<close> (the key
  \<^verbatim>\<open>error\<close>) are None until the key is set. The time stamps and the list
  \<^verbatim>\<open>screenshots_captured\<close>, which stays empty, are left out.
\<close>

record ('m, 'i) analysis_results =
  session_id :: string
  viral_content_identified :: "candidate list"
  platform_analysis :: buckets
  viral_metrics :: "'m option"
  top_performers :: "analysis list"
  engagement_insights :: "'i option"
  success :: "bool option"
  error_message :: "string option"

text \<open>
  The steps the top-level function calls. In the program each of them catches its own
  exceptions; the top-level handler is there for whatever escapes all the same, so the
  top-level function is stated for steps that may raise.
\<close>

record ('m, 'i) phases =
  ph_identify :: "(string \<times> source_value) list \<Rightarrow> exn + candidate list"
  ph_enrich :: "candidate list \<Rightarrow> exn + buckets"
  ph_metrics :: "buckets \<Rightarrow> exn + 'm"
  ph_top :: "buckets \<Rightarrow> exn + analysis list"
  ph_insights :: "buckets \<Rightarrow> exn + 'i"
  ph_write :: "string \<Rightarrow> ('m, 'i) analysis_results \<Rightarrow> exn + unit"

text \<open>
  \<^verbatim>\<open>
  async def _save_analysis_results(self, results: Dict, session_id: str):
      try:
          filename = f"viral_analysis_{session_id}_{...}.json"
          with open(filepath, 'w', encoding='utf-8') as f:
              json.dump(results, f, indent=2, ensure_ascii=False)
      except Exception as e:
          logger.error(...)
  \<close>
  The effect of a run on the file system is the list of its write attempts.
\<close>

datatype ('m, 'i) io_event =
  Written string "('m, 'i) analysis_results"
| WriteFailed string "('m, 'i) analysis_results"

definition save_analysis_results ::
  "(string \<Rightarrow> ('m, 'i) analysis_results \<Rightarrow> exn + unit) \<Rightarrow> ('m, 'i) analysis_results \<Rightarrow> string
     \<Rightarrow> ('m, 'i) io_event list" where
  "save_analysis_results write results sid =
     (case write sid results of
        Inl e \<Rightarrow> [WriteFailed sid results]
      | Inr u \<Rightarrow> [Written sid results])"

text \<open>
  \<^verbatim>\<open>
  analysis_results = {'session_id': session_id, ..., 'viral_content_identified': [],
      'viral_metrics': {}, 'platform_analysis': {}, 'top_performers': [],
      'engagement_insights': {}}
  try:
      viral_urls = await self._identify_viral_content(search_results)
      analysis_results['viral_content_identified'] = viral_urls
      detailed_analysis = await self._analyze_with_instascrape(viral_urls[:max_captures])
      analysis_results['platform_analysis'] = detailed_analysis
      metrics = self._calculate_viral_metrics(detailed_analysis)
      analysis_results['viral_metrics'] = metrics
      analysis_results['top_performers'] = self._get_top_performers(detailed_analysis)
      analysis_results['engagement_insights'] = \
          self._generate_engagement_insights(detailed_analysis)
      analysis_results['analysis_completed'] = datetime.now().isoformat()
      analysis_results['success'] = True
      await self._save_analysis_results(analysis_results, session_id)
  except Exception as e:
      analysis_results['error'] = str(e)
      analysis_results['success'] = False
  return analysis_results
  \<close>
  The function returns the result dict and the write attempts of the run.
\<close>

definition initial_results :: "string \<Rightarrow> ('m, 'i) analysis_results" where
  "initial_results sid =
     \<lparr>session_id = sid, viral_content_identified = [], platform_analysis = [],
      viral_metrics = None, top_performers = [], engagement_insights = None,
      success = None, error_message = None\<rparr>"

definition run_failed ::
  "('m, 'i) analysis_results \<Rightarrow> exn \<Rightarrow> ('m, 'i) analysis_results \<times> ('m, 'i) io_event list" where
  "run_failed results e = (results\<lparr>error_message := Some (exn_text e), success := Some False\<rparr>, [])"

definition analyze_and_capture_viral_content ::
  "('m, 'i) phases \<Rightarrow> (string \<times> source_value) list \<Rightarrow> string \<Rightarrow> int
     \<Rightarrow> ('m, 'i) analysis_results \<times> ('m, 'i) io_event list" where
  "analyze_and_capture_viral_content ph search_results sid max_captures =
     (let r0 = initial_results sid
      in case ph_identify ph search_results of
           Inl e \<Rightarrow> run_failed r0 e
         | Inr viral_urls \<Rightarrow>
             (let r1 = r0\<lparr>viral_content_identified := viral_urls\<rparr>
              in case ph_enrich ph (slice_to max_captures viral_urls) of
                   Inl e \<Rightarrow> run_failed r1 e
                 | Inr detailed_analysis \<Rightarrow>
                     (let r2 = r1\<lparr>platform_analysis := detailed_analysis\<rparr>
                      in case ph_metrics ph detailed_analysis of
                           Inl e \<Rightarrow> run_failed r2 e
                         | Inr metrics \<Rightarrow>
                             (let r3 = r2\<lparr>viral_metrics := Some metrics\<rparr>
                              in case ph_top ph detailed_analysis of
                                   Inl e \<Rightarrow> run_failed r3 e
                                 | Inr performers \<Rightarrow>
                                     (let r4 = r3\<lparr>top_performers := performers\<rparr>
                                      in case ph_insights ph detailed_analysis of
                                           Inl e \<Rightarrow> run_failed r4 e
                                         | Inr insights \<Rightarrow>
                                             (let r5 = r4\<lparr>engagement_insights := Some insights,
                                                           success := Some True\<rparr>
                                              in (r5, save_analysis_results (ph_write ph) r5 sid)))))))"

text \<open>
  The steps of the program itself: none of them lets an exception out. The two
  aggregation functions (\_calculate\_viral\_metrics, \_generate\_engagement\_insights) and
  the file system are parameters.
\<close>

definition analyzer_phases ::
  "bool \<Rightarrow> (string \<Rightarrow> exn + post) \<Rightarrow> (buckets \<Rightarrow> 'm) \<Rightarrow> (buckets \<Rightarrow> 'i)
     \<Rightarrow> (string \<Rightarrow> ('m, 'i) analysis_results \<Rightarrow> exn + unit) \<Rightarrow> ('m, 'i) phases" where
  "analyzer_phases has_instascrape scrape metrics insights write =
     \<lparr>ph_identify = (\<lambda>search_results. Inr (identify_viral_content search_results)),
      ph_enrich = (\<lambda>viral_urls. Inr (analyze_with_instascrape has_instascrape scrape viral_urls)),
      ph_metrics = (\<lambda>pa. Inr (metrics pa)),
      ph_top = (\<lambda>pa. Inr (get_top_performers pa default_top_n)),
      ph_insights = (\<lambda>pa. Inr (insights pa)),
      ph_write = write\<rparr>"

text \<open>
  The outcome of the steps taken alone, for stating what a run returns: the first
  exception a step raises, or the values of all five.
\<close>

definition first_exception :: "('m, 'i) phases \<Rightarrow> (string \<times> source_value) list \<Rightarrow> int \<Rightarrow> exn option" where
  "first_exception ph search_results max_captures =
     (case ph_identify ph search_results of
        Inl e \<Rightarrow> Some e
      | Inr viral_urls \<Rightarrow>
          (case ph_enrich ph (slice_to max_captures viral_urls) of
             Inl e \<Rightarrow> Some e
           | Inr pa \<Rightarrow>
               (case ph_metrics ph pa of
                  Inl e \<Rightarrow> Some e
                | Inr m \<Rightarrow>
                    (case ph_top ph pa of
                       Inl e \<Rightarrow> Some e
                     | Inr t \<Rightarrow>
                         (case ph_insights ph pa of Inl e \<Rightarrow> Some e | Inr i \<Rightarrow> None)))))"

section \<open>Verified properties\<close>

subsection \<open>The platform classifier\<close>


lemma py_lower_idem: "py_lower (py_lower s) = py_lower s"
proof -
  have "lower_char (lower_char c) = lower_char c" for c
  proof -
    have "of_char c < (256::nat)"
      by simp
    then show ?thesis
      by (auto simp: lower_char_def Let_def)
  qed
  then show ?thesis
    by (simp add: py_lower_def)
qed

lemma find_Some_holds: "find P xs = Some x \<Longrightarrow> x \<in> set xs \<and> P x"
  by (induction xs) (auto split: if_splits)

lemma identify_platform_first_match:
  "identify_platform url = first_fragment_match (py_lower url)"
  by (simp add: identify_platform_def first_fragment_match_def platform_fragments_def Let_def)

lemma first_fragment_match_None:
  "first_fragment_match t = None \<longleftrightarrow> (\<forall>(f, p) \<in> set platform_fragments. \<not> sublist f t)"
  by (auto simp: first_fragment_match_def find_None_iff)

lemma first_fragment_match_Some:
  assumes "first_fragment_match t = Some p"
  shows "\<exists>f. (f, p) \<in> set platform_fragments \<and> sublist f t"
proof -
  from assms obtain e where e: "find (\<lambda>(f, p). sublist f t) platform_fragments = Some e"
    and p: "p = snd e"
    by (auto simp: first_fragment_match_def)
  from e have "e \<in> set platform_fragments" and "(\<lambda>(f, p). sublist f t) e"
    by (auto dest: find_Some_holds)
  with p show ?thesis
    by (cases e) auto
qed

text \<open>
  C4. The classifier is a case-insensitive substring match against the fixed ordered
  fragment list, the first match winning: it returns the platform of the first listed
  fragment that occurs in the lowered URL; a returned platform always has one of its
  fragments in the lowered URL; a URL whose fragments all belong to one platform gets
  exactly that platform; the result is None exactly when no fragment occurs; and two
  URLs that differ only in letter case are classified alike.
\<close>

theorem identify_platform_classifies:
  "identify_platform url = first_fragment_match (py_lower url)
   \<and> (\<forall>p. identify_platform url = Some p \<longrightarrow>
          (\<exists>f. (f, p) \<in> set platform_fragments \<and> sublist f (py_lower url)))
   \<and> (\<forall>p. (\<exists>f. (f, p) \<in> set platform_fragments \<and> sublist f (py_lower url))
          \<and> (\<forall>(f, q) \<in> set platform_fragments. sublist f (py_lower url) \<longrightarrow> q = p)
          \<longrightarrow> identify_platform url = Some p)
   \<and> (identify_platform url = None \<longleftrightarrow>
          (\<forall>(f, p) \<in> set platform_fragments. \<not> sublist f (py_lower url)))
   \<and> (\<forall>url'. py_lower url' = py_lower url \<longrightarrow> identify_platform url' = identify_platform url)
   \<and> identify_platform (py_lower url) = identify_platform url"
proof -
  let ?t = "py_lower url"
  have first: "identify_platform url = first_fragment_match ?t"
    by (rule identify_platform_first_match)
  have some: "\<exists>f. (f, p) \<in> set platform_fragments \<and> sublist f ?t"
    if "identify_platform url = Some p" for p
    using that first_fragment_match_Some [of ?t p] by (simp add: first)
  have none: "identify_platform url = None \<longleftrightarrow>
      (\<forall>(f, p) \<in> set platform_fragments. \<not> sublist f ?t)"
    by (simp add: first first_fragment_match_None)
  have only: "identify_platform url = Some p"
    if ex: "\<exists>f. (f, p) \<in> set platform_fragments \<and> sublist f ?t"
      and all: "\<forall>(f, q) \<in> set platform_fragments. sublist f ?t \<longrightarrow> q = p" for p
  proof (cases "identify_platform url")
    case None
    with none ex show ?thesis
      by auto
  next
    case (Some q)
    from some [OF Some] obtain f where "(f, q) \<in> set platform_fragments" "sublist f ?t"
      by blast
    with all have "q = p"
      by auto
    with Some show ?thesis
      by simp
  qed
  have insens: "identify_platform url' = identify_platform url"
    if "py_lower url' = py_lower url" for url'
    using that by (simp add: identify_platform_first_match)
  have lowered: "identify_platform (py_lower url) = identify_platform url"
    by (simp add: identify_platform_first_match py_lower_idem)
  from first some only none insens lowered show ?thesis
    by blast
qed

theorem identify_platform_classifies_witness:
  "identify_platform ''https://WWW.YouTube.com/watch'' = Some ''youtube''
   \<and> (\<exists>f. (f, ''youtube'') \<in> set platform_fragments
          \<and> sublist f (py_lower ''https://WWW.YouTube.com/watch''))"
proof -
  have e: "identify_platform ''https://WWW.YouTube.com/watch'' = Some ''youtube''"
    by code_simp
  show ?thesis
    using identify_platform_classifies [of "''https://WWW.YouTube.com/watch''"] e by blast
qed

subsection \<open>The initial score\<close>

lemma fold_keyword_step:
  "fold (keyword_step t) kws s = s + sum_list (map snd (filter (\<lambda>kw. sublist (fst kw) t) kws))"
  by (induction kws arbitrary: s) (simp_all add: keyword_step_def)

lemma keyword_weights_nonneg: "\<forall>kw \<in> set viral_keyword_weights. 0 \<le> snd kw"
  by (simp add: viral_keyword_weights_def)

lemma keyword_points_nonneg:
  "0 \<le> sum_list (map snd (filter (\<lambda>kw. sublist (fst kw) t) viral_keyword_weights))"
  using keyword_weights_nonneg by (intro sum_list_nonneg) auto

lemma magnitude_bonus_nonneg: "0 \<le> magnitude_bonus v"
  by (simp add: magnitude_bonus_def)

lemma number_step_read:
  "py_isdigit num \<Longrightarrow>
   number_step num s =
     (if int_max_str_digits < length num then Inl (Exn ''ValueError'')
      else Inr (s + magnitude_bonus (digits_value num)))"
  by (simp add: number_step_def int_of_digits_def magnitude_bonus_def)

lemma run_try_number_steps:
  "\<forall>n \<in> set nums. py_isdigit n \<Longrightarrow>
   run_try (map number_step nums) s =
     s + sum_list (map (magnitude_bonus \<circ> digits_value) (numbers_read nums))"
proof (induction nums arbitrary: s)
  case Nil
  then show ?case
    by (simp add: numbers_read_def)
next
  case (Cons num nums)
  then have digit: "py_isdigit num" and rest: "\<forall>n \<in> set nums. py_isdigit n"
    by simp_all
  show ?case
  proof (cases "int_max_str_digits < length num")
    case True
    then show ?thesis
      by (simp add: number_step_read [OF digit] numbers_read_def)
  next
    case False
    with Cons.IH [OF rest, of "s + magnitude_bonus (digits_value num)"] show ?thesis
      by (simp add: number_step_read [OF digit] numbers_read_def)
  qed
qed


lemma digit_runs_isdigit:
  "list_all is_digit run \<Longrightarrow> \<forall>n \<in> set (digit_runs run cs). py_isdigit n"
proof (induction cs arbitrary: run)
  case Nil
  then show ?case
    by (simp add: py_isdigit_def)
next
  case (Cons c cs)
  show ?case
  proof (cases "is_digit c")
    case True
    with Cons.prems have "list_all is_digit (run @ [c])"
      by simp
    from Cons.IH [OF this] True show ?thesis
      by simp
  next
    case False
    have "list_all is_digit []"
      by simp
    from Cons.IH [OF this] False Cons.prems show ?thesis
      by (simp add: py_isdigit_def)
  qed
qed

lemma findall_digits_isdigit: "\<forall>n \<in> set (findall_digits t). py_isdigit n"
  unfolding findall_digits_def by (rule digit_runs_isdigit) simp


lemma number_points_nonneg: "0 \<le> sum_list (map (magnitude_bonus \<circ> digits_value) nums)"
  by (intro sum_list_nonneg) (auto simp: magnitude_bonus_nonneg)

lemma initial_score_sum:
  "calculate_initial_score result platform =
     min (sum_list (map snd (filter (\<lambda>kw. sublist (fst kw)
              (py_lower (text_content_of (r_title result) (r_description result))))
            viral_keyword_weights))
          + sum_list (map (magnitude_bonus \<circ> digits_value)
              (numbers_read (findall_digits
                (py_lower (text_content_of (r_title result) (r_description result)))))))
       100"
  by (simp add: calculate_initial_score_def Let_def fold_keyword_step
      run_try_number_steps [OF findall_digits_isdigit])

lemma initial_score_range:
  "0 \<le> calculate_initial_score result platform \<and> calculate_initial_score result platform \<le> 100"
proof -
  let ?t = "py_lower (text_content_of (r_title result) (r_description result))"
  have "0 \<le> sum_list (map snd (filter (\<lambda>kw. sublist (fst kw) ?t) viral_keyword_weights))
          + sum_list (map (magnitude_bonus \<circ> digits_value) (numbers_read (findall_digits ?t)))"
    using keyword_points_nonneg [of ?t] number_points_nonneg [of "numbers_read (findall_digits ?t)"]
    by linarith
  then show ?thesis
    by (simp add: initial_score_sum)
qed

















lemma py_lower_zeros: "py_lower (replicate n (CHR ''0'')) = replicate n (CHR ''0'')"
proof -
  have "lower_char (CHR ''0'') = CHR ''0''"
    by code_simp
  then show ?thesis
    by (simp add: py_lower_def)
qed

lemma py_lower_append: "py_lower (a @ b) = py_lower a @ py_lower b"
  by (simp add: py_lower_def)



subsection \<open>The viral score\<close>

lemma tier_stage_mono:
  "0 \<le> full \<Longrightarrow> 0 \<le> half \<Longrightarrow> tier_stage v hi lo full half s = Inr s' \<Longrightarrow> s \<le> s'"
  by (auto simp: tier_stage_def split: sum.splits if_splits)

lemma bonus_stage_mono: "bonus_stage h m s = Inr s' \<Longrightarrow> s \<le> s'"
  by (auto simp: bonus_stage_def split: sum.splits)

lemma run_try_mono:
  "\<forall>stage \<in> set stages. \<forall>s s'. stage s = Inr s' \<longrightarrow> s \<le> s' \<Longrightarrow> s \<le> run_try stages s"
proof (induction stages arbitrary: s)
  case Nil
  then show ?case by simp
next
  case (Cons stage rest)
  show ?case
  proof (cases "stage s")
    case (Inl e)
    then show ?thesis by simp
  next
    case (Inr s')
    with Cons.prems have "s \<le> s'" by simp
    moreover have "s' \<le> run_try rest s'"
      using Cons.IH Cons.prems by simp
    ultimately show ?thesis using Inr by simp
  qed
qed

lemma instagram_stages_mono:
  "\<forall>stage \<in> set (instagram_stages a th). \<forall>s s'. stage s = Inr s' \<longrightarrow> s \<le> s'"
  by (auto simp: instagram_stages_def Let_def dest: tier_stage_mono [rotated 2] bonus_stage_mono)

lemma youtube_stages_mono:
  "\<forall>stage \<in> set (youtube_stages a th). \<forall>s s'. stage s = Inr s' \<longrightarrow> s \<le> s'"
  by (auto simp: youtube_stages_def Let_def dest: tier_stage_mono [rotated 2])

lemma viral_score_range:
  "0 \<le> calculate_viral_score a platform \<and> calculate_viral_score a platform \<le> 100"
proof -
  have "0 \<le> run_try (instagram_stages a th) 0" for th
    by (rule run_try_mono) (rule instagram_stages_mono)
  moreover have "0 \<le> run_try (youtube_stages a th) 0" for th
    by (rule run_try_mono) (rule youtube_stages_mono)
  ultimately show ?thesis
    by (simp add: calculate_viral_score_def Let_def)
qed


text \<open>
  C1. For every search result and every analysis record, whatever fields are missing or
  hold values of the wrong kind, the initial score and the viral score lie between 0 and
  100.
\<close>

theorem scores_within_0_100:
  "0 \<le> calculate_initial_score result platform
   \<and> calculate_initial_score result platform \<le> 100
   \<and> 0 \<le> calculate_viral_score a platform'
   \<and> calculate_viral_score a platform' \<le> 100"
  using initial_score_range [of result platform] viral_score_range [of a platform']
  by simp

lemma instagram_thresholds:
  "dict_get viral_thresholds ''instagram'' [] =
     [(''min_likes'', 1000), (''min_comments'', 50), (''engagement_rate'', 3 / 100)]"
  by (simp add: dict_get_def viral_thresholds_def)

text \<open>
  C7. An Instagram record with 2000 likes, 100 comments, engagement rate 5, five hashtags
  and two mentions scores 91: the four statements of the formula add 30, 20, 25 and
  10 + 6; and no Instagram score exceeds 100.
\<close>

theorem instagram_scenario_91:
  assumes "a_likes a = Some (PNum 2000)" and "a_comments a = Some (PNum 100)"
    and "a_engagement_rate a = Some (PNum 5)"
    and "a_hashtags a = Some (PList hashtags)" and "length hashtags = 5"
    and "a_mentions a = Some (PList mentions)" and "length mentions = 2"
  shows "calculate_viral_score a ''instagram'' = 91
    \<and> map (\<lambda>stage. stage 0) (instagram_stages a (dict_get viral_thresholds ''instagram'' []))
        = [Inr 30, Inr 20, Inr 25, Inr (10 + 6)]
    \<and> (\<forall>a'. calculate_viral_score a' ''instagram'' \<le> 100)"
proof -
  have stages: "instagram_stages a (dict_get viral_thresholds ''instagram'' []) =
      [tier_stage (PNum 2000) 1000 500 30 15, tier_stage (PNum 100) 50 25 20 10,
       tier_stage (PNum 5) 3 (3 / 2) 25 15, bonus_stage (PList hashtags) (PList mentions)]"
    unfolding instagram_stages_def instagram_thresholds
    using assms by (simp add: dict_get_def field_or_def)
  have bonus: "bonus_stage (PList hashtags) (PList mentions) s = Inr (s + 16)" for s
    using assms by (simp add: bonus_stage_def py_len_def)
  have t1: "tier_stage (PNum 2000) 1000 500 30 15 s = Inr (s + 30)" for s
    by (simp add: tier_stage_def py_ge_def)
  have t2: "tier_stage (PNum 100) 50 25 20 10 s = Inr (s + 20)" for s
    by (simp add: tier_stage_def py_ge_def)
  have t3: "tier_stage (PNum 5) 3 (3 / 2) 25 15 s = Inr (s + 25)" for s
    by (simp add: tier_stage_def py_ge_def)
  have "run_try (instagram_stages a (dict_get viral_thresholds ''instagram'' [])) 0 = 91"
    by (simp add: stages t1 t2 t3 bonus)
  then have "calculate_viral_score a ''instagram'' = 91"
    by (simp add: calculate_viral_score_def)
  moreover have "map (\<lambda>stage. stage 0) (instagram_stages a (dict_get viral_thresholds ''instagram'' []))
        = [Inr 30, Inr 20, Inr 25, Inr (10 + 6)]"
    by (simp add: stages t1 t2 t3 bonus)
  moreover have "\<forall>a'. calculate_viral_score a' ''instagram'' \<le> 100"
    by (simp add: viral_score_range)
  ultimately show ?thesis by blast
qed

theorem instagram_scenario_91_witness:
  "calculate_viral_score
     \<lparr>a_url = ''https://instagram.com/p/abc'', a_platform = ''instagram'', a_title = ''post'',
      a_description = None, a_likes = Some (PNum 2000), a_comments = Some (PNum 100),
      a_views = None, a_engagement_rate = Some (PNum 5),
      a_hashtags = Some (PList [''a'', ''b'', ''c'', ''d'', ''e'']),
      a_mentions = Some (PList [''x'', ''y'']), a_viral_score = 0,
      a_analysis_method = None\<rparr> ''instagram'' = 91"
  using instagram_scenario_91
    [of "\<lparr>a_url = ''https://instagram.com/p/abc'', a_platform = ''instagram'', a_title = ''post'',
      a_description = None, a_likes = Some (PNum 2000), a_comments = Some (PNum 100),
      a_views = None, a_engagement_rate = Some (PNum 5),
      a_hashtags = Some (PList [''a'', ''b'', ''c'', ''d'', ''e'']),
      a_mentions = Some (PList [''x'', ''y'']), a_viral_score = 0,
      a_analysis_method = None\<rparr>" "[''a'', ''b'', ''c'', ''d'', ''e'']" "[''x'', ''y'']"]
  by simp

subsection \<open>Worked examples\<close>

lemma findall_digits_example:
  "findall_digits ''ab 12 c3456d 1.000.000 7'' = [''12'', ''3456'', ''1'', ''000'', ''000'', ''7'']"
  by code_simp

lemma findall_number_unit_example:
  "findall_number_unit 0 ''10 million 1.5.2k 3 mil 4.k 7  thousand 12x'' =
     [''10'', ''5.2'', ''3'', ''7'']"
  by code_simp

lemma empty_result_scores_0:
  "calculate_initial_score \<lparr>r_url = None, r_title = None, r_description = None\<rparr> ''instagram'' = 0"
  by code_simp

lemma empty_analysis_scores_0:
  "calculate_viral_score
     \<lparr>a_url = '''', a_platform = '''', a_title = '''', a_description = None, a_likes = None,
      a_comments = None, a_views = None, a_engagement_rate = None, a_hashtags = None,
      a_mentions = None, a_viral_score = 0, a_analysis_method = None\<rparr> ''instagram'' = 0"
  by code_simp

lemma wrong_kind_keeps_score_so_far:
  "calculate_viral_score
     \<lparr>a_url = '''', a_platform = '''', a_title = '''', a_description = None,
      a_likes = Some (PNum 2000), a_comments = Some PNone, a_views = None,
      a_engagement_rate = Some (PNum 5), a_hashtags = None,
      a_mentions = None, a_viral_score = 0, a_analysis_method = None\<rparr> ''instagram'' = 30"
  by code_simp

lemma engagement_rate_rounded:
  "engagement_rate_of (PNum 60) (PNum 40) (Some (PNum 3)) =
     Inr (PNum (7330077518506667 / 2199023255552))"
  by code_simp

lemma engagement_rate_exact:
  "engagement_rate_of (PNum 2000) (PNum 100) (Some (PNum 42000)) = Inr (PNum 5)"
  by code_simp

subsection \<open>Keywords that promote without scoring\<close>

lemma weighted_keywords_subset: "set (map fst viral_keyword_weights) \<subseteq> set viral_keywords"
  by (simp add: viral_keyword_weights_def viral_keywords_def)

lemma unweighted_keywords:
  "set viral_keywords - set (map fst viral_keyword_weights) =
     {''shares'', ''compartilhamentos'', ''coment'' @ [CHR 0xE1] @ ''rios'', ''comments''}"
  by code_simp

lemma shares_only_candidate:
  "identify_viral_content
     [(''google'', ResultList [ResultDict
        \<lparr>r_url = Some (PStr ''https://www.tiktok.com/@a/video/1''),
         r_title = Some ''Thanks for all the shares'', r_description = None\<rparr>])] =
   [\<lparr>c_url = ''https://www.tiktok.com/@a/video/1'', c_platform = ''tiktok'',
     c_source = ''google'', c_title = ''Thanks for all the shares'', c_description = [],
     c_initial_score = 0\<rparr>]"
  by code_simp

text \<open>
  C10. The keywords of the candidate filter strictly contain the keywords that carry a
  weight: \<^verbatim>\<open>shares\<close>, \<^verbatim>\<open>compartilhamentos\<close>, \<^verbatim>\<open>coment\xe1rios\<close> and
  \<^verbatim>\<open>comments\<close> promote a result without scoring. A result whose text has only such a
  keyword and no number above 1000 becomes a candidate with initial score 0.
\<close>

theorem unweighted_keyword_candidate_scores_0:
  "set (map fst viral_keyword_weights) \<subset> set viral_keywords
   \<and> set viral_keywords - set (map fst viral_keyword_weights) =
       {''shares'', ''compartilhamentos'', ''coment'' @ [CHR 0xE1] @ ''rios'', ''comments''}
   \<and> identify_viral_content
       [(''google'', ResultList [ResultDict
          \<lparr>r_url = Some (PStr ''https://www.tiktok.com/@a/video/1''),
           r_title = Some ''Thanks for all the shares'', r_description = None\<rparr>])] =
     [\<lparr>c_url = ''https://www.tiktok.com/@a/video/1'', c_platform = ''tiktok'',
       c_source = ''google'', c_title = ''Thanks for all the shares'', c_description = [],
       c_initial_score = 0\<rparr>]"
proof -
  have "set viral_keywords - set (map fst viral_keyword_weights) \<noteq> {}"
    by (simp only: unweighted_keywords) simp
  with weighted_keywords_subset have "set (map fst viral_keyword_weights) \<subset> set viral_keywords"
    by blast
  with unweighted_keywords shares_only_candidate show ?thesis
    by blast
qed

subsection \<open>Top performers\<close>

lemma mset_insert_desc: "mset (insert_desc key x ys) = add_mset x (mset ys)"
  by (induction ys) simp_all

lemma mset_sorted_reverse: "mset (sorted_reverse key xs) = mset xs"
  by (induction xs) (simp_all add: mset_insert_desc)

lemma set_insert_desc: "set (insert_desc key x ys) = insert x (set ys)"
proof -
  have "set_mset (mset (insert_desc key x ys)) = set_mset (add_mset x (mset ys))"
    by (simp only: mset_insert_desc)
  then show ?thesis
    by simp
qed

lemma descending_insert_desc:
  assumes "sorted_wrt (\<lambda>a b. key b \<le> key a) ys"
  shows "sorted_wrt (\<lambda>a b. key b \<le> key a) (insert_desc key x ys)"
  using assms
proof (induction ys)
  case Nil
  then show ?case by simp
next
  case (Cons y ys)
  show ?case
  proof (cases "key y \<le> key x")
    case True
    with Cons.prems show ?thesis
      by auto
  next
    case False
    with Cons show ?thesis
      by (auto simp: set_insert_desc)
  qed
qed

lemma descending_sorted_reverse: "sorted_wrt (\<lambda>a b. key b \<le> key a) (sorted_reverse key xs)"
  by (induction xs) (simp_all add: descending_insert_desc)

lemma stable_insert_desc:
  "filter (\<lambda>y. key y = k) (insert_desc key x ys) =
     (if key x = k then x # filter (\<lambda>y. key y = k) ys else filter (\<lambda>y. key y = k) ys)"
  by (induction ys) auto

lemma stable_sorted_reverse:
  "filter (\<lambda>y. key y = k) (sorted_reverse key xs) = filter (\<lambda>y. key y = k) xs"
  by (induction xs) (simp_all add: stable_insert_desc)

lemma length_sorted_reverse: "length (sorted_reverse key xs) = length xs"
proof -
  have "size (mset (sorted_reverse key xs)) = size (mset xs)"
    by (simp only: mset_sorted_reverse)
  then show ?thesis
    by simp
qed

lemma slice_to_take: "\<exists>k. slice_to n xs = take k xs"
  by (auto simp: slice_to_def)

lemma length_slice_to:
  "length (slice_to n xs) = (if 0 \<le> n then min (nat n) (length xs) else length xs - nat (- n))"
  by (auto simp: slice_to_def)

lemma filter_take_prefix: "prefix (filter P (take k xs)) (filter P xs)"
proof -
  have "filter P xs = filter P (take k xs) @ filter P (drop k xs)"
    by (metis append_take_drop_id filter_append)
  then show ?thesis
    by (simp add: prefix_def)
qed

text \<open>
  C8. The list \_get\_top\_performers returns is in descending order of viral score; items
  of equal score keep the order in which the buckets list them (it is a prefix of the
  stable descending sort of all items); for a count \<open>top_n\<close> that is not negative its
  length is the minimum of \<open>top_n\<close> and the number of items, and the default count is 10.
\<close>

theorem top_performers_sorted_stable_bounded:
  "sorted_wrt (\<lambda>x y. a_viral_score y \<le> a_viral_score x) (get_top_performers pa top_n)
   \<and> (\<forall>s. prefix (filter (\<lambda>x. a_viral_score x = s) (get_top_performers pa top_n))
                 (filter (\<lambda>x. a_viral_score x = s) (all_content_of pa)))
   \<and> (\<exists>k ranked. get_top_performers pa top_n = take k ranked
         \<and> mset ranked = mset (all_content_of pa)
         \<and> sorted_wrt (\<lambda>x y. a_viral_score y \<le> a_viral_score x) ranked
         \<and> (\<forall>s. filter (\<lambda>x. a_viral_score x = s) ranked
                 = filter (\<lambda>x. a_viral_score x = s) (all_content_of pa)))
   \<and> (0 \<le> top_n \<longrightarrow>
         length (get_top_performers pa top_n) = min (nat top_n) (length (all_content_of pa)))
   \<and> default_top_n = 10
   \<and> length (get_top_performers pa default_top_n) = min 10 (length (all_content_of pa))"
proof -
  let ?all = "all_content_of pa"
  let ?ranked = "sorted_reverse a_viral_score ?all"
  obtain k where k: "get_top_performers pa top_n = take k ?ranked"
    using slice_to_take [of top_n ?ranked] by (auto simp: get_top_performers_def)
  have ranked: "sorted_wrt (\<lambda>x y. a_viral_score y \<le> a_viral_score x) ?ranked"
    by (rule descending_sorted_reverse)
  have sorted: "sorted_wrt (\<lambda>x y. a_viral_score y \<le> a_viral_score x) (get_top_performers pa top_n)"
    unfolding k using ranked by (rule sorted_wrt_take)
  have stable: "prefix (filter (\<lambda>x. a_viral_score x = s) (get_top_performers pa top_n))
                 (filter (\<lambda>x. a_viral_score x = s) ?all)" for s
    using filter_take_prefix [of "\<lambda>x. a_viral_score x = s" k ?ranked]
    by (simp add: k stable_sorted_reverse)
  have whole: "\<exists>k ranked. get_top_performers pa top_n = take k ranked
         \<and> mset ranked = mset ?all
         \<and> sorted_wrt (\<lambda>x y. a_viral_score y \<le> a_viral_score x) ranked
         \<and> (\<forall>s. filter (\<lambda>x. a_viral_score x = s) ranked
                 = filter (\<lambda>x. a_viral_score x = s) ?all)"
    using k ranked mset_sorted_reverse [of a_viral_score ?all]
      stable_sorted_reverse [of a_viral_score _ ?all]
    by blast
  have len: "length (get_top_performers pa n) = min (nat n) (length ?all)" if "0 \<le> n" for n
    using that by (simp add: get_top_performers_def length_slice_to length_sorted_reverse)
  have "length (get_top_performers pa default_top_n) = min 10 (length ?all)"
    using len [of default_top_n] by (simp add: default_top_n_def)
  with sorted stable whole len [of top_n] show ?thesis
    by (simp add: default_top_n_def)
qed


theorem top_performers_sorted_stable_bounded_witness:
  "length (get_top_performers
     [(''instagram'', [basic_record ''u1'' \<lparr>c_url = ''u1'', c_platform = ''instagram'',
          c_source = ''s'', c_title = ''a'', c_description = ''d'', c_initial_score = 5\<rparr>,
        basic_record ''u2'' \<lparr>c_url = ''u2'', c_platform = ''instagram'',
          c_source = ''s'', c_title = ''b'', c_description = ''d'', c_initial_score = 7\<rparr>]),
      (''other'', [basic_record ''u3'' \<lparr>c_url = ''u3'', c_platform = ''linkedin'',
          c_source = ''s'', c_title = ''c'', c_description = ''d'', c_initial_score = 7\<rparr>])] 2) = 2"
  using top_performers_sorted_stable_bounded
    [of "[(''instagram'', [basic_record ''u1'' \<lparr>c_url = ''u1'', c_platform = ''instagram'',
          c_source = ''s'', c_title = ''a'', c_description = ''d'', c_initial_score = 5\<rparr>,
        basic_record ''u2'' \<lparr>c_url = ''u2'', c_platform = ''instagram'',
          c_source = ''s'', c_title = ''b'', c_description = ''d'', c_initial_score = 7\<rparr>]),
      (''other'', [basic_record ''u3'' \<lparr>c_url = ''u3'', c_platform = ''linkedin'',
          c_source = ''s'', c_title = ''c'', c_description = ''d'', c_initial_score = 7\<rparr>])]" 2]
  by (simp add: all_content_of_def)

subsection \<open>Routing into the platform buckets\<close>

lemma keys_bucket_append: "map fst (bucket_append pa key a) = map fst pa"
  by (induction pa) (auto simp: bucket_append_def)

lemma map_of_bucket_append:
  "map_of (bucket_append pa key a) k =
     (if k = key then map_option (\<lambda>items. items @ [a]) (map_of pa key) else map_of pa k)"
  by (induction pa) (auto simp: bucket_append_def)

lemma mset_bucket_append:
  "distinct (map fst pa) \<Longrightarrow> key \<in> set (map fst pa) \<Longrightarrow>
   mset (all_content_of (bucket_append pa key a)) = add_mset a (mset (all_content_of pa))"
proof (induction pa)
  case Nil
  then show ?case by simp
next
  case (Cons entry pa)
  obtain k items where entry: "entry = (k, items)"
    by (cases entry)
  show ?case
  proof (cases "k = key")
    case True
    with Cons.prems entry have "key \<notin> set (map fst pa)"
      by simp
    then have "bucket_append pa key a = pa"
      by (induction pa) (auto simp: bucket_append_def)
    with True entry show ?thesis
      by (simp add: all_content_of_def bucket_append_def)
  next
    case False
    with Cons.prems entry have "distinct (map fst pa)" and "key \<in> set (map fst pa)"
      by auto
    from Cons.IH [OF this] False entry show ?thesis
      by (simp add: all_content_of_def bucket_append_def)
  qed
qed

lemma empty_bucket_keys:
  "map fst empty_buckets =
     [''instagram'', ''youtube'', ''facebook'', ''twitter'', ''tiktok'', ''other'']"
  by (simp add: empty_buckets_def)

lemma keyed_lookup:
  assumes "map fst pa = map fst empty_buckets"
  shows "map_of pa k = None \<longleftrightarrow>
     k \<notin> {''instagram'', ''youtube'', ''facebook'', ''twitter'', ''tiktok'', ''other''}"
proof -
  have "map_of pa k = None \<longleftrightarrow> k \<notin> set (map fst pa)"
    by (simp add: map_of_eq_None_iff)
  then show ?thesis
    by (simp only: assms empty_bucket_keys) simp
qed

lemma keyed_distinct:
  assumes "map fst pa = map fst empty_buckets"
  shows "distinct (map fst pa)"
  by (simp only: assms empty_bucket_keys) simp

lemma bucket_key_in_keys:
  "bucket_key p \<in> {''instagram'', ''youtube'', ''facebook'', ''twitter'', ''tiktok'', ''other''}"
  by (simp add: bucket_key_def)

lemma append_get_other_keyed:
  assumes "map fst pa = map fst empty_buckets"
  shows "append_get_other pa platform a = Inr (bucket_append pa (bucket_key platform) a)"
proof -
  have other: "map_of pa ''other'' \<noteq> None"
    using keyed_lookup [OF assms, of "''other''"] by simp
  show ?thesis
  proof (cases "map_of pa platform")
    case None
    then have "bucket_key platform = ''other''"
      using keyed_lookup [OF assms, of platform] by (simp add: bucket_key_def)
    with None other show ?thesis
      by (auto simp: append_get_other_def)
  next
    case (Some items)
    then have "bucket_key platform = platform"
      using keyed_lookup [OF assms, of platform] by (auto simp: bucket_key_def)
    with Some other show ?thesis
      by (auto simp: append_get_other_def)
  qed
qed

lemma append_at_keyed:
  assumes "map fst pa = map fst empty_buckets"
    and "key \<in> {''instagram'', ''youtube'', ''facebook'', ''twitter'', ''tiktok'', ''other''}"
  shows "append_at pa key a = Inr (bucket_append pa key a)"
  using keyed_lookup [OF assms(1), of key] assms(2) by (auto simp: append_at_def)

lemma fallback_step_keyed:
  assumes "map fst pa = map fst empty_buckets"
  shows "fallback_step pa c =
     Inr (bucket_append pa (bucket_key (c_platform c)) (basic_record (c_url c) c))"
  by (simp add: fallback_step_def basic_url_analysis_def append_get_other_keyed [OF assms])

lemma fallback_loop:
  assumes "map fst pa = map fst empty_buckets"
  shows "map fst (each_item fallback_step cs pa) = map fst empty_buckets
    \<and> (\<forall>k. map_of (each_item fallback_step cs pa) k =
          map_option (\<lambda>items. items @ map (\<lambda>c. basic_record (c_url c) c)
                        (filter (\<lambda>c. bucket_key (c_platform c) = k) cs)) (map_of pa k))
    \<and> mset (all_content_of (each_item fallback_step cs pa)) =
        mset (all_content_of pa) + mset (map (\<lambda>c. basic_record (c_url c) c) cs)"
  using assms
proof (induction cs arbitrary: pa)
  case Nil
  then show ?case
    by (simp add: option.map_ident)
next
  case (Cons c cs)
  let ?pa' = "bucket_append pa (bucket_key (c_platform c)) (basic_record (c_url c) c)"
  have step: "fallback_step pa c = Inr ?pa'"
    by (rule fallback_step_keyed [OF Cons.prems])
  have keyed: "map fst ?pa' = map fst empty_buckets"
    by (simp add: keys_bucket_append Cons.prems)
  have content: "mset (all_content_of ?pa') =
      add_mset (basic_record (c_url c) c) (mset (all_content_of pa))"
    using keyed_distinct [OF Cons.prems] bucket_key_in_keys [of "c_platform c"]
    by (intro mset_bucket_append) (simp_all only: Cons.prems empty_bucket_keys, simp)
  from Cons.IH [OF keyed] step content show ?case
    by (auto simp: map_of_bucket_append option.map_comp comp_def)
qed


lemma instascrape_step_keyed:
  assumes "map fst pa = map fst empty_buckets"
  shows "\<exists>pa'. instascrape_step scrape pa c = Inr pa'
     \<and> map fst pa' = map fst empty_buckets
     \<and> (\<forall>k. k \<noteq> ''instagram'' \<and> k \<noteq> ''youtube'' \<longrightarrow>
          map_of pa' k =
            (if c_platform c \<noteq> ''instagram'' \<and> c_platform c \<noteq> ''youtube''
                \<and> bucket_key (c_platform c) = k
             then map_option (\<lambda>items. items @ [basic_record (c_url c) c]) (map_of pa k)
             else map_of pa k))"
proof -
  consider (instagram) "c_platform c = ''instagram''"
    | (youtube) "c_platform c \<noteq> ''instagram''" "c_platform c = ''youtube''"
    | (other) "c_platform c \<noteq> ''instagram''" "c_platform c \<noteq> ''youtube''"
    by blast
  then show ?thesis
  proof cases
    case instagram
    show ?thesis
    proof (cases "analyze_instagram_post scrape (c_url c) c")
      case None
      with instagram assms show ?thesis
        by (simp add: instascrape_step_def)
    next
      case (Some a)
      have "append_at pa ''instagram'' a = Inr (bucket_append pa ''instagram'' a)"
        by (rule append_at_keyed [OF assms]) simp
      with instagram Some assms show ?thesis
        by (simp add: instascrape_step_def keys_bucket_append map_of_bucket_append)
    qed
  next
    case youtube
    obtain a where a: "analyze_youtube_video (c_url c) c = Some a"
      by (simp add: analyze_youtube_video_def)
    have "append_at pa ''youtube'' a = Inr (bucket_append pa ''youtube'' a)"
      by (rule append_at_keyed [OF assms]) simp
    with youtube a assms show ?thesis
      by (simp add: instascrape_step_def keys_bucket_append map_of_bucket_append)
  next
    case other
    have key: "bucket_key (c_platform c) \<noteq> ''instagram''" "bucket_key (c_platform c) \<noteq> ''youtube''"
      using other by (auto simp: bucket_key_def)
    have "instascrape_step scrape pa c =
        Inr (bucket_append pa (bucket_key (c_platform c)) (basic_record (c_url c) c))"
      using other
      by (simp add: instascrape_step_def basic_url_analysis_def append_get_other_keyed [OF assms])
    with other assms key show ?thesis
      by (auto simp: keys_bucket_append map_of_bucket_append)
  qed
qed

lemma instascrape_loop:
  assumes "map fst pa = map fst empty_buckets"
    and "k \<noteq> ''instagram''" and "k \<noteq> ''youtube''"
  shows "map fst (each_item (instascrape_step scrape) cs pa) = map fst empty_buckets
    \<and> map_of (each_item (instascrape_step scrape) cs pa) k =
          map_option (\<lambda>items. items @ map (\<lambda>c. basic_record (c_url c) c)
              (filter (\<lambda>c. c_platform c \<noteq> ''instagram'' \<and> c_platform c \<noteq> ''youtube''
                         \<and> bucket_key (c_platform c) = k) cs)) (map_of pa k)"
  using assms(1)
proof (induction cs arbitrary: pa)
  case Nil
  then show ?case
    by (simp add: option.map_ident)
next
  case (Cons c cs)
  from instascrape_step_keyed [OF Cons.prems, of scrape c]
  obtain pa' where step: "instascrape_step scrape pa c = Inr pa'"
    and keyed: "map fst pa' = map fst empty_buckets"
    and look: "map_of pa' k =
            (if c_platform c \<noteq> ''instagram'' \<and> c_platform c \<noteq> ''youtube''
                \<and> bucket_key (c_platform c) = k
             then map_option (\<lambda>items. items @ [basic_record (c_url c) c]) (map_of pa k)
             else map_of pa k)"
    using assms(2,3) by blast
  from Cons.IH [OF keyed] step look show ?case
    by (auto simp: option.map_comp comp_def)
qed

lemma lookup_empty_buckets:
  "k \<in> {''instagram'', ''youtube'', ''facebook'', ''twitter'', ''tiktok'', ''other''} \<Longrightarrow>
   map_of empty_buckets k = Some []"
  by (auto simp: empty_buckets_def)

lemma bucket_key_own:
  "k \<in> {''facebook'', ''twitter'', ''tiktok''} \<Longrightarrow> bucket_key p = k \<longleftrightarrow> p = k"
  by (auto simp: bucket_key_def)

lemma bucket_key_other:
  "bucket_key p = ''other'' \<longleftrightarrow>
     p \<notin> {''instagram'', ''youtube'', ''facebook'', ''twitter'', ''tiktok''}"
  by (auto simp: bucket_key_def)

lemma routed_buckets:
  assumes "k \<noteq> ''instagram''" and "k \<noteq> ''youtube''"
    and "k \<in> {''facebook'', ''twitter'', ''tiktok'', ''other''}"
  shows "map fst (analyze_with_instascrape has_instascrape scrape cs) = map fst empty_buckets
    \<and> map_of (analyze_with_instascrape has_instascrape scrape cs) k =
        Some (map (\<lambda>c. basic_record (c_url c) c)
          (filter (\<lambda>c. c_platform c \<noteq> ''instagram'' \<and> c_platform c \<noteq> ''youtube''
                         \<and> bucket_key (c_platform c) = k) cs))"
proof (cases has_instascrape)
  case True
  have "map_of empty_buckets k = Some []"
    using assms(3) by (intro lookup_empty_buckets) auto
  with instascrape_loop [OF refl assms(1,2), of scrape cs] True show ?thesis
    by (simp add: analyze_with_instascrape_def)
next
  case False
  have e: "map_of empty_buckets k = Some []"
    using assms(3) by (intro lookup_empty_buckets) auto
  have same: "(\<lambda>c. bucket_key (c_platform c) = k) =
      (\<lambda>c. c_platform c \<noteq> ''instagram'' \<and> c_platform c \<noteq> ''youtube''
            \<and> bucket_key (c_platform c) = k)"
    using assms(1,2) by (auto simp: bucket_key_def fun_eq_iff)
  from fallback_loop [OF refl, of cs] have
    "map fst (each_item fallback_step cs empty_buckets) = map fst empty_buckets"
    and "map_of (each_item fallback_step cs empty_buckets) k =
          map_option (\<lambda>items. items @ map (\<lambda>c. basic_record (c_url c) c)
                        (filter (\<lambda>c. bucket_key (c_platform c) = k) cs)) (map_of empty_buckets k)"
    by blast+
  with False e show ?thesis
    by (simp add: analyze_with_instascrape_def basic_analysis_fallback_def flip: same)
qed

text \<open>
  C5, as the code has it. Whether or not the scraping library is there, the mapping has
  exactly the six buckets instagram, youtube, facebook, twitter, tiktok and other, and no
  linkedin bucket. The basic fallback record of a candidate whose platform is facebook,
  twitter or tiktok is appended to that platform's bucket; the record of a candidate with
  any other platform tag apart from instagram and youtube, linkedin included, is appended
  to the bucket \<^verbatim>\<open>other\<close>. Each bucket keeps the order of the candidates.
\<close>

theorem basic_fallback_routing:
  "map fst (analyze_with_instascrape has_instascrape scrape cs) =
     [''instagram'', ''youtube'', ''facebook'', ''twitter'', ''tiktok'', ''other'']
   \<and> map_of (analyze_with_instascrape has_instascrape scrape cs) ''linkedin'' = None
   \<and> (\<forall>k \<in> {''facebook'', ''twitter'', ''tiktok''}.
         map_of (analyze_with_instascrape has_instascrape scrape cs) k =
           Some (map (\<lambda>c. basic_record (c_url c) c) (filter (\<lambda>c. c_platform c = k) cs)))
   \<and> map_of (analyze_with_instascrape has_instascrape scrape cs) ''other'' =
         Some (map (\<lambda>c. basic_record (c_url c) c)
           (filter (\<lambda>c. c_platform c \<notin>
              {''instagram'', ''youtube'', ''facebook'', ''twitter'', ''tiktok''}) cs))"
proof -
  let ?pa = "analyze_with_instascrape has_instascrape scrape cs"
  have keys: "map fst ?pa = [''instagram'', ''youtube'', ''facebook'', ''twitter'', ''tiktok'', ''other'']"
    using routed_buckets [of "''other''" has_instascrape scrape cs]
    by (simp add: empty_bucket_keys)
  have "map_of ?pa ''linkedin'' = None \<longleftrightarrow> ''linkedin'' \<notin> set (map fst ?pa)"
    by (simp add: map_of_eq_None_iff)
  then have linkedin: "map_of ?pa ''linkedin'' = None"
    by (simp only: keys) simp
  have own: "map_of ?pa k =
      Some (map (\<lambda>c. basic_record (c_url c) c) (filter (\<lambda>c. c_platform c = k) cs))"
    if k: "k \<in> {''facebook'', ''twitter'', ''tiktok''}" for k
  proof -
    have same: "(\<lambda>c. c_platform c \<noteq> ''instagram'' \<and> c_platform c \<noteq> ''youtube''
                     \<and> bucket_key (c_platform c) = k) = (\<lambda>c. c_platform c = k)"
      using k by (auto simp: bucket_key_def fun_eq_iff)
    have "k \<noteq> ''instagram''" "k \<noteq> ''youtube''" "k \<in> {''facebook'', ''twitter'', ''tiktok'', ''other''}"
      using k by auto
    from routed_buckets [OF this, of has_instascrape scrape cs] show ?thesis
      by (simp add: same)
  qed
  have same: "(\<lambda>c. c_platform c \<noteq> ''instagram'' \<and> c_platform c \<noteq> ''youtube''
                     \<and> bucket_key (c_platform c) = ''other'') =
      (\<lambda>c. c_platform c \<notin> {''instagram'', ''youtube'', ''facebook'', ''twitter'', ''tiktok''})"
    by (auto simp: bucket_key_def fun_eq_iff)
  have other: "map_of ?pa ''other'' =
         Some (map (\<lambda>c. basic_record (c_url c) c)
           (filter (\<lambda>c. c_platform c \<notin>
              {''instagram'', ''youtube'', ''facebook'', ''twitter'', ''tiktok''}) cs))"
    using routed_buckets [of "''other''" has_instascrape scrape cs] by (simp add: same)
  from keys linkedin own other show ?thesis
    by blast
qed

theorem basic_fallback_routing_witness:
  "map_of (analyze_with_instascrape True (\<lambda>url. Inl (Exn ''offline''))
      [\<lparr>c_url = ''https://www.tiktok.com/@a/video/1'', c_platform = ''tiktok'',
        c_source = ''google'', c_title = ''trending'', c_description = '''',
        c_initial_score = 8\<rparr>]) ''tiktok'' =
   Some [basic_record ''https://www.tiktok.com/@a/video/1''
      \<lparr>c_url = ''https://www.tiktok.com/@a/video/1'', c_platform = ''tiktok'',
        c_source = ''google'', c_title = ''trending'', c_description = '''',
        c_initial_score = 8\<rparr>]"
proof -
  let ?cs = "[\<lparr>c_url = ''https://www.tiktok.com/@a/video/1'', c_platform = ''tiktok'',
           c_source = ''google'', c_title = ''trending'', c_description = '''',
           c_initial_score = 8\<rparr>]"
  let ?pa = "analyze_with_instascrape True (\<lambda>url. Inl (Exn ''offline'')) ?cs"
  have "\<forall>k \<in> {''facebook'', ''twitter'', ''tiktok''}.
      map_of ?pa k =
        Some (map (\<lambda>c. basic_record (c_url c) c) (filter (\<lambda>c. c_platform c = k) ?cs))"
    by (rule basic_fallback_routing
        [of True "\<lambda>url. Inl (Exn ''offline'')" ?cs,
         THEN conjunct2, THEN conjunct2, THEN conjunct1])
  then have "map_of ?pa ''tiktok'' =
      Some (map (\<lambda>c. basic_record (c_url c) c) (filter (\<lambda>c. c_platform c = ''tiktok'') ?cs))"
    by simp
  then show ?thesis
    by simp
qed


text \<open>
  The claim as the specification states it fails for linkedin: the classifier returns
  linkedin for a linkedin URL, yet the mapping has no such bucket and the record lands in
  \<^verbatim>\<open>other\<close>.
\<close>

theorem linkedin_routed_to_other_counterexample:
  "identify_platform ''https://www.linkedin.com/posts/viral-launch'' = Some ''linkedin''
   \<and> map_of (analyze_with_instascrape True (\<lambda>url. Inl (Exn ''offline''))
        [\<lparr>c_url = ''https://www.linkedin.com/posts/viral-launch'', c_platform = ''linkedin'',
          c_source = ''google'', c_title = ''viral launch'', c_description = '''',
          c_initial_score = 10\<rparr>]) ''linkedin'' = None
   \<and> map_of (analyze_with_instascrape True (\<lambda>url. Inl (Exn ''offline''))
        [\<lparr>c_url = ''https://www.linkedin.com/posts/viral-launch'', c_platform = ''linkedin'',
          c_source = ''google'', c_title = ''viral launch'', c_description = '''',
          c_initial_score = 10\<rparr>]) ''other'' =
       Some [basic_record ''https://www.linkedin.com/posts/viral-launch''
          \<lparr>c_url = ''https://www.linkedin.com/posts/viral-launch'', c_platform = ''linkedin'',
            c_source = ''google'', c_title = ''viral launch'', c_description = '''',
            c_initial_score = 10\<rparr>]"
  by code_simp

subsection \<open>The scraping library unavailable\<close>

text \<open>
  C6. With \<^verbatim>\<open>HAS_INSTASCRAPE\<close> false the adapter is \_basic\_analysis\_fallback: every
  candidate, whatever its platform, yields exactly one record, the basic fallback record,
  whose \<^verbatim>\<open>analysis_method\<close> is \<^verbatim>\<open>basic_fallback\<close> and whose viral score is the
  candidate's initial score; the record sits in the bucket of the candidate's platform
  (\<^verbatim>\<open>other\<close> when the platform has none), and the buckets hold nothing else.
\<close>

theorem unavailable_scraper_all_basic_fallback:
  "analyze_with_instascrape False scrape cs = basic_analysis_fallback cs
   \<and> (\<forall>k \<in> {''instagram'', ''youtube'', ''facebook'', ''twitter'', ''tiktok'', ''other''}.
         map_of (analyze_with_instascrape False scrape cs) k =
           Some (map (\<lambda>c. basic_record (c_url c) c)
                  (filter (\<lambda>c. bucket_key (c_platform c) = k) cs)))
   \<and> mset (all_content_of (analyze_with_instascrape False scrape cs)) =
         mset (map (\<lambda>c. basic_record (c_url c) c) cs)
   \<and> (\<forall>c. basic_url_analysis (c_url c) c = Some (basic_record (c_url c) c)
         \<and> a_analysis_method (basic_record (c_url c) c) = Some ''basic_fallback''
         \<and> a_viral_score (basic_record (c_url c) c) = c_initial_score c)
   \<and> (\<forall>a \<in> set (all_content_of (analyze_with_instascrape False scrape cs)).
         a_analysis_method a = Some ''basic_fallback''
         \<and> (\<exists>c \<in> set cs. a = basic_record (c_url c) c \<and> a_viral_score a = c_initial_score c))"
proof -
  let ?pa = "analyze_with_instascrape False scrape cs"
  let ?basic = "\<lambda>c. basic_record (c_url c) c"
  have fallback: "?pa = basic_analysis_fallback cs"
    by (simp add: analyze_with_instascrape_def)
  have loop: "map_of ?pa k =
      map_option (\<lambda>items. items @ map ?basic (filter (\<lambda>c. bucket_key (c_platform c) = k) cs))
        (map_of empty_buckets k)" for k
    using fallback_loop [OF refl, of cs] by (simp add: fallback basic_analysis_fallback_def)
  have buckets: "map_of ?pa k = Some (map ?basic (filter (\<lambda>c. bucket_key (c_platform c) = k) cs))"
    if "k \<in> {''instagram'', ''youtube'', ''facebook'', ''twitter'', ''tiktok'', ''other''}" for k
    using lookup_empty_buckets [OF that] by (simp add: loop)
  have "mset (all_content_of empty_buckets) = {#}"
    by (simp add: all_content_of_def empty_buckets_def)
  then have content: "mset (all_content_of ?pa) = mset (map ?basic cs)"
    using fallback_loop [OF refl, of cs] by (simp add: fallback basic_analysis_fallback_def)
  have made: "basic_url_analysis (c_url c) c = Some (?basic c)
      \<and> a_analysis_method (?basic c) = Some ''basic_fallback''
      \<and> a_viral_score (?basic c) = c_initial_score c" for c
    by (simp add: basic_url_analysis_def basic_record_def)
  have "set (all_content_of ?pa) = set (map ?basic cs)"
    using content by (rule mset_eq_setD)
  then have members: "a_analysis_method a = Some ''basic_fallback''
      \<and> (\<exists>c \<in> set cs. a = ?basic c \<and> a_viral_score a = c_initial_score c)"
    if "a \<in> set (all_content_of ?pa)" for a
    using that made by auto
  show ?thesis
  proof (intro conjI)
    show "?pa = basic_analysis_fallback cs"
      by (rule fallback)
    show "\<forall>k \<in> {''instagram'', ''youtube'', ''facebook'', ''twitter'', ''tiktok'', ''other''}.
        map_of ?pa k = Some (map ?basic (filter (\<lambda>c. bucket_key (c_platform c) = k) cs))"
      by (intro ballI) (rule buckets)
    show "mset (all_content_of ?pa) = mset (map ?basic cs)"
      by (rule content)
    show "\<forall>c. basic_url_analysis (c_url c) c = Some (?basic c)
        \<and> a_analysis_method (?basic c) = Some ''basic_fallback''
        \<and> a_viral_score (?basic c) = c_initial_score c"
      by (intro allI) (rule made)
    show "\<forall>a \<in> set (all_content_of ?pa).
        a_analysis_method a = Some ''basic_fallback''
        \<and> (\<exists>c \<in> set cs. a = ?basic c \<and> a_viral_score a = c_initial_score c)"
      by (intro ballI) (rule members)
  qed
qed


theorem unavailable_scraper_all_basic_fallback_witness:
  "map_of (analyze_with_instascrape False (\<lambda>url. Inl (Exn ''no scraper''))
      [\<lparr>c_url = ''https://instagram.com/p/abc'', c_platform = ''instagram'', c_source = ''google'',
        c_title = ''viral post'', c_description = '''', c_initial_score = 10\<rparr>]) ''instagram'' =
   Some [\<lparr>a_url = ''https://instagram.com/p/abc'', a_platform = ''instagram'',
          a_title = ''viral post'', a_description = Some '''',
          a_likes = None, a_comments = None, a_views = None, a_engagement_rate = None,
          a_hashtags = None, a_mentions = None, a_viral_score = 10,
          a_analysis_method = Some ''basic_fallback''\<rparr>]"
proof -
  let ?cs = "[\<lparr>c_url = ''https://instagram.com/p/abc'', c_platform = ''instagram'',
           c_source = ''google'', c_title = ''viral post'', c_description = '''',
           c_initial_score = 10\<rparr>]"
  let ?pa = "analyze_with_instascrape False (\<lambda>url. Inl (Exn ''no scraper'')) ?cs"
  have "\<forall>k \<in> {''instagram'', ''youtube'', ''facebook'', ''twitter'', ''tiktok'', ''other''}.
      map_of ?pa k =
        Some (map (\<lambda>c. basic_record (c_url c) c)
               (filter (\<lambda>c. bucket_key (c_platform c) = k) ?cs))"
    by (rule unavailable_scraper_all_basic_fallback
        [of "\<lambda>url. Inl (Exn ''no scraper'')" ?cs, THEN conjunct2, THEN conjunct1])
  then have "map_of ?pa ''instagram'' =
      Some (map (\<lambda>c. basic_record (c_url c) c)
             (filter (\<lambda>c. bucket_key (c_platform c) = ''instagram'') ?cs))"
    by simp
  then show ?thesis
    by (simp add: bucket_key_def basic_record_def)
qed

subsection \<open>The top-level run\<close>

lemma run_after_exception:
  assumes "first_exception ph search_results max_captures = Some e"
  shows "success (fst (analyze_and_capture_viral_content ph search_results sid max_captures)) = Some False
    \<and> error_message (fst (analyze_and_capture_viral_content ph search_results sid max_captures))
        = Some (exn_text e)
    \<and> snd (analyze_and_capture_viral_content ph search_results sid max_captures) = []"
  using assms
  by (auto simp: analyze_and_capture_viral_content_def first_exception_def run_failed_def
      Let_def split: sum.splits)

lemma run_without_exception:
  assumes "first_exception ph search_results max_captures = None"
  shows "success (fst (analyze_and_capture_viral_content ph search_results sid max_captures)) = Some True
    \<and> error_message (fst (analyze_and_capture_viral_content ph search_results sid max_captures)) = None
    \<and> snd (analyze_and_capture_viral_content ph search_results sid max_captures) =
        save_analysis_results (ph_write ph)
          (fst (analyze_and_capture_viral_content ph search_results sid max_captures)) sid"
  using assms
  by (auto simp: analyze_and_capture_viral_content_def first_exception_def run_failed_def
      initial_results_def Let_def split: sum.splits)

lemma save_one_attempt:
  "save_analysis_results write results sid = [Written sid results]
   \<or> save_analysis_results write results sid = [WriteFailed sid results]"
  by (simp add: save_analysis_results_def split: sum.splits)

lemma analyzer_phases_no_exception:
  "first_exception (analyzer_phases has_instascrape scrape metrics insights write)
     search_results max_captures = None"
  by (simp add: first_exception_def analyzer_phases_def)

text \<open>
  C9. The top-level function always returns a result. When a step raises, the result has
  \<^verbatim>\<open>success\<close> false and \<^verbatim>\<open>error\<close> set to the text of the exception, and no write is
  attempted. When no step raises, \<^verbatim>\<open>success\<close> is true, there is no \<^verbatim>\<open>error\<close>, and the
  result is handed to exactly one write, whose failure leaves the flag as it is. With the
  program's own steps, none of which lets an exception out, \<^verbatim>\<open>success\<close> is true.
\<close>

theorem analyze_captures_every_exception:
  "(case first_exception ph search_results max_captures of
      Some e \<Rightarrow>
        success (fst (analyze_and_capture_viral_content ph search_results sid max_captures))
          = Some False
        \<and> error_message (fst (analyze_and_capture_viral_content ph search_results sid max_captures))
          = Some (exn_text e)
        \<and> snd (analyze_and_capture_viral_content ph search_results sid max_captures) = []
    | None \<Rightarrow>
        success (fst (analyze_and_capture_viral_content ph search_results sid max_captures))
          = Some True
        \<and> error_message (fst (analyze_and_capture_viral_content ph search_results sid max_captures))
          = None
        \<and> (snd (analyze_and_capture_viral_content ph search_results sid max_captures)
              = [Written sid (fst (analyze_and_capture_viral_content ph search_results sid max_captures))]
           \<or> snd (analyze_and_capture_viral_content ph search_results sid max_captures)
              = [WriteFailed sid (fst (analyze_and_capture_viral_content ph search_results sid max_captures))]))
   \<and> success (fst (analyze_and_capture_viral_content
        (analyzer_phases has_instascrape scrape metrics insights write)
        search_results sid max_captures)) = Some True"
proof -
  let ?run = "analyze_and_capture_viral_content ph search_results sid max_captures"
  have general: "(case first_exception ph search_results max_captures of
      Some e \<Rightarrow> success (fst ?run) = Some False
        \<and> error_message (fst ?run) = Some (exn_text e) \<and> snd ?run = []
    | None \<Rightarrow> success (fst ?run) = Some True \<and> error_message (fst ?run) = None
        \<and> (snd ?run = [Written sid (fst ?run)] \<or> snd ?run = [WriteFailed sid (fst ?run)]))"
  proof (cases "first_exception ph search_results max_captures")
    case None
    from run_without_exception [OF None, of sid]
      save_one_attempt [of "ph_write ph" "fst ?run" sid] None
    show ?thesis
      by simp
  next
    case (Some e)
    from run_after_exception [OF Some, of sid] Some show ?thesis
      by simp
  qed
  have own: "success (fst (analyze_and_capture_viral_content
        (analyzer_phases has_instascrape scrape metrics insights write)
        search_results sid max_captures)) = Some True"
    using run_without_exception [OF analyzer_phases_no_exception] by blast
  from general own show ?thesis
    by (rule conjI)
qed

subsection \<open>The view count of a YouTube candidate\<close>

lemma to_float_5: "to_float 5 = Finite 5"
  by code_simp

lemma to_float_10: "to_float 10 = Finite 10"
  by code_simp

lemma to_float_5000000: "to_float 5000000 = Finite 5000000"
  by code_simp

lemma to_float_10000000: "to_float 10000000 = Finite 10000000"
  by code_simp

lemma views_5k_2_million:
  "youtube_views ''5k likes and 2 million views'' '''' = 5000000"
proof -
  have lowered: "py_lower ''5k likes and 2 million views '' =
      ''5k likes and 2 million views ''"
    by code_simp
  have numbers: "findall_number_unit 0 ''5k likes and 2 million views '' = [''5'', ''2'']"
    by code_simp
  have number: "is_decimal (replace_comma ''5'')" "decimal_value (replace_comma ''5'') = 5"
    by code_simp+
  have million: "sublist ''million'' ''5k likes and 2 million views ''"
    by code_simp
  have "parse_views ''5k likes and 2 million views '' ''5'' = Inr 5000000"
    by (simp add: parse_views_def py_float_def number scale_by_unit_def million
        float_times_def to_float_5 to_float_5000000 py_int_def)
  then show ?thesis
    by (simp add: youtube_views_def Let_def lowered numbers del: findall_number_unit.simps)
qed

lemma views_10_million:
  "youtube_views ''10 million views video'' '''' = 10000000"
proof -
  have lowered: "py_lower ''10 million views video '' = ''10 million views video ''"
    by code_simp
  have numbers: "findall_number_unit 0 ''10 million views video '' = [''10'']"
    by code_simp
  have number: "is_decimal (replace_comma ''10'')" "decimal_value (replace_comma ''10'') = 10"
    by code_simp+
  have million: "sublist ''million'' ''10 million views video ''"
    by code_simp
  have "parse_views ''10 million views video '' ''10'' = Inr 10000000"
    by (simp add: parse_views_def py_float_def number scale_by_unit_def million
        float_times_def to_float_10 to_float_10000000 py_int_def)
  then show ?thesis
    by (simp add: youtube_views_def Let_def lowered numbers del: findall_number_unit.simps)
qed

text \<open>
  Rounding shows in the view count: 4.1 is not a double, the nearest one lies below it,
  and its product with 1,000,000 is cut to 4,099,999.
\<close>

lemma views_rounded_down:
  "youtube_views ''4.1 million views'' '''' = 4099999"
proof -
  have lowered: "py_lower ''4.1 million views '' = ''4.1 million views ''"
    by code_simp
  have numbers: "findall_number_unit 0 ''4.1 million views '' = [''4.1'']"
    by code_simp
  have number: "is_decimal (replace_comma ''4.1'')" "decimal_value (replace_comma ''4.1'') = 41 / 10"
    by code_simp+
  have million: "sublist ''million'' ''4.1 million views ''"
    by code_simp
  have nearest: "to_float (41 / 10) = Finite (2308094809027379 / 562949953421312)"
    by code_simp
  have product: "float_times (Finite (2308094809027379 / 562949953421312)) 1000000
      = Finite (8804682956799999 / 2147483648)"
    by code_simp
  have cut: "py_int (Finite (8804682956799999 / 2147483648)) = Inr 4099999"
    by code_simp
  have "parse_views ''4.1 million views '' ''4.1'' = Inr 4099999"
    unfolding parse_views_def py_float_def scale_by_unit_def
    by (simp only: number million nearest product cut if_True sum.case simp_thms)
  then show ?thesis
    by (simp add: youtube_views_def Let_def lowered numbers del: findall_number_unit.simps)
qed



text \<open>
  C2, at one input. In the title \<^verbatim>\<open>5k likes and 2 million views\<close> the first match of
  the pattern is the number 5 with the unit \<^verbatim>\<open>k\<close> (a match of length 2), and the
  numbers found are 5 and 2. The multiplier is chosen by looking for the unit words in
  the whole text, so the word \<^verbatim>\<open>million\<close> further on turns the 5 into 5,000,000
  views, not 5,000. The scenario of the specification, \<^verbatim>\<open>10 million views video\<close>, gives
  10,000,000.
\<close>

theorem youtube_views_scaled_by_unit_found_anywhere:
  "match_number_unit ''5k likes and 2 million views '' = Some (''5'', 2)
   \<and> findall_number_unit 0 (py_lower (''5k likes and 2 million views'' @ '' '' @ ''''))
       = [''5'', ''2'']
   \<and> youtube_views ''5k likes and 2 million views'' '''' = 5000000
   \<and> youtube_views ''10 million views video'' '''' = 10000000"
proof -
  have "match_number_unit ''5k likes and 2 million views '' = Some (''5'', 2)"
    by code_simp
  moreover have "findall_number_unit 0 (py_lower (''5k likes and 2 million views'' @ '' '' @ ''''))
       = [''5'', ''2'']"
    by code_simp
  ultimately show ?thesis
    using views_5k_2_million views_10_million by simp
qed

end
